theory Spec2Isabelle
  imports Complex_Main "HOL-Library.Word" "HOL-Library.Sublist"
begin

section \<open>The settlement contract \<open>TokenExchange\<close>\<close>

text \<open>
  Solidity's value types: an \<open>address\<close> is 160 bits wide, \<open>uint256\<close>, \<open>uint160\<close> and
  \<open>uint24\<close> are unsigned machine integers. \<open>exchange\<close> does no arithmetic on them; it
  only compares two \<open>uint256\<close> values, unsigned.
\<close>

type_synonym address = "160 word"
type_synonym uint256 = "256 word"
type_synonym uint160 = "160 word"
type_synonym uint24 = "24 word"

text \<open>The struct \<open>ISwapRouter.SwapSingleParams\<close>, field by field.\<close>

record SwapSingleParams =
  tokenFrom :: address
  tokenTo :: address
  feeRate :: uint24
  recipient :: address
  deadline :: uint256
  inputAmount :: uint256
  minOutputAmount :: uint256
  priceLimit :: uint160

text \<open>The contract's storage: two variables, written by the constructor only.\<close>

record TokenExchange =
  router :: address
  wrappedNativeToken :: address

definition constructor :: "address \<Rightarrow> address \<Rightarrow> TokenExchange" where
  "constructor router' wrappedNativeToken' =
     \<lparr>router = router', wrappedNativeToken = wrappedNativeToken'\<rparr>"

subsection \<open>External calls\<close>

text \<open>
  \<open>IERC20\<close> and \<open>ISwapRouter\<close> are interfaces: the token and the router are contracts
  deployed elsewhere, and what they do is not part of this repository. They are the
  parameter \<open>env\<close> of the model, over any type \<open>'w\<close> of world states (every contract's
  storage but this one's, which \<open>exchange\<close> never writes).  An external call either
  reverts with a reason (\<open>Inl\<close>), leaving the world as it was before the call, or
  returns a value and a new world (\<open>Inr\<close>).  The first address of each function is
  the contract called, the second the caller (\<open>msg.sender\<close> of that call).
\<close>

record 'w env =
  transferFrom :: "address \<Rightarrow> address \<Rightarrow> address \<Rightarrow> address \<Rightarrow> uint256 \<Rightarrow> 'w \<Rightarrow> string + bool \<times> 'w"
  approve :: "address \<Rightarrow> address \<Rightarrow> address \<Rightarrow> uint256 \<Rightarrow> 'w \<Rightarrow> string + bool \<times> 'w"
  swapExactInputSingle :: "address \<Rightarrow> address \<Rightarrow> SwapSingleParams \<Rightarrow> 'w \<Rightarrow> string + uint256 \<times> 'w"

text \<open>The external calls a run makes, in order, with the arguments passed.\<close>

datatype ext_call =
    is_TransferFromCall: TransferFromCall address address address uint256
  | is_ApproveCall: ApproveCall address address uint256
  | is_SwapCall: SwapExactInputSingleCall address SwapSingleParams

text \<open>
  A piece of contract code takes the world and gives the calls it made, the world it
  stopped in, and either a revert reason or its value.
\<close>

type_synonym ('w, 'a) evm = "'w \<Rightarrow> ext_call list \<times> 'w \<times> (string + 'a)"

definition bindE :: "('w, 'a) evm \<Rightarrow> ('a \<Rightarrow> ('w, 'b) evm) \<Rightarrow> ('w, 'b) evm" where
  "bindE m f = (\<lambda>w.
     case m w of
       (t1, w1, Inl reason) \<Rightarrow> (t1, w1, Inl reason)
     | (t1, w1, Inr a) \<Rightarrow> (case f a w1 of (t2, w2, r) \<Rightarrow> (t1 @ t2, w2, r)))"

definition require :: "bool \<Rightarrow> string \<Rightarrow> ('w, unit) evm" where
  "require cond reason = (\<lambda>w. ([], w, if cond then Inr () else Inl reason))"

definition call_ext :: "ext_call \<Rightarrow> ('w \<Rightarrow> string + 'a \<times> 'w) \<Rightarrow> ('w, 'a) evm" where
  "call_ext c f = (\<lambda>w.
     case f w of
       Inl reason \<Rightarrow> ([c], w, Inl reason)
     | Inr (a, w') \<Rightarrow> ([c], w', Inr a))"

subsection \<open>\<open>exchange\<close>\<close>

text \<open>
  The body of \<open>exchange\<close>, statement by statement, for a call that carries no ether
  (the function is not payable).  \<open>this\<close> is \<open>address(this)\<close>, \<open>msg_sender\<close> is
  \<open>msg.sender\<close>, \<open>block_timestamp\<close> is \<open>block.timestamp\<close>.  A high-level call that
  reverts makes the caller revert with the same reason.
\<close>

definition exchange_body ::
  "'w env \<Rightarrow> TokenExchange \<Rightarrow> address \<Rightarrow> address \<Rightarrow> uint256 \<Rightarrow>
   address \<Rightarrow> address \<Rightarrow> uint256 \<Rightarrow> uint256 \<Rightarrow> address \<Rightarrow> ('w, unit) evm" where
  "exchange_body E c this msg_sender block_timestamp
       inputToken outputToken inputAmount' minOutput receiver =
     bindE (call_ext (TransferFromCall inputToken msg_sender this inputAmount')
              (transferFrom E inputToken this msg_sender this inputAmount')) (\<lambda>moved.
     bindE (require moved ''Token transfer failed'') (\<lambda>_.
     bindE (call_ext (ApproveCall inputToken (router c) inputAmount')
              (approve E inputToken this (router c) inputAmount')) (\<lambda>approved.
     bindE (require approved ''Approval failed'') (\<lambda>_.
     let swapDetails = \<lparr>
           tokenFrom = inputToken,
           tokenTo = outputToken,
           feeRate = 3000,
           recipient = receiver,
           deadline = block_timestamp,
           inputAmount = inputAmount',
           minOutputAmount = minOutput,
           priceLimit = 0\<rparr>
     in
     bindE (call_ext (SwapExactInputSingleCall (router c) swapDetails)
              (swapExactInputSingle E (router c) this swapDetails)) (\<lambda>outputAmount.
     require (outputAmount \<ge> minOutput) ''Insufficient output'')))))"

text \<open>
  A call of \<open>exchange\<close> as a transaction: a revert undoes every change the body made
  to the world before it stopped; this is the platform's rule, not the contract's code.
\<close>

definition exchange ::
  "'w env \<Rightarrow> TokenExchange \<Rightarrow> address \<Rightarrow> address \<Rightarrow> uint256 \<Rightarrow>
   address \<Rightarrow> address \<Rightarrow> uint256 \<Rightarrow> uint256 \<Rightarrow> address \<Rightarrow> ('w, unit) evm" where
  "exchange E c this msg_sender block_timestamp
       inputToken outputToken inputAmount' minOutput receiver = (\<lambda>w.
     case exchange_body E c this msg_sender block_timestamp
            inputToken outputToken inputAmount' minOutput receiver w of
       (calls, w', Inl reason) \<Rightarrow> (calls, w, Inl reason)
     | (calls, w', Inr u) \<Rightarrow> (calls, w', Inr u))"

subsection \<open>A reference token ledger and router\<close>

text \<open>
  Modelled from the spec: the token and router contracts, which the repository only
  declares.  Tokens are standard ledgers (spec 6: "standard
  balance/allowance/transfer/transfer-on-behalf/approve calls"): \<open>balances w t a\<close> is
  what account \<open>a\<close> holds of token \<open>t\<close>, \<open>allowances w t a s\<close> what \<open>s\<close> may still move
  out of \<open>a\<close>'s holdings.  A transfer-on-behalf that the allowance or the balance does
  not cover reports failure by returning \<open>false\<close> and changes nothing.  Holdings are
  natural numbers: a ledger's total supply fits in a \<open>uint256\<close>, so no sum of holdings
  wraps around.
\<close>

record ledger =
  balances :: "address \<Rightarrow> address \<Rightarrow> nat"
  allowances :: "address \<Rightarrow> address \<Rightarrow> address \<Rightarrow> nat"

definition move_tokens :: "address \<Rightarrow> address \<Rightarrow> address \<Rightarrow> nat \<Rightarrow> ledger \<Rightarrow> ledger" where
  "move_tokens token from to n w =
     (let b = balances w token;
          b1 = b(from := b from - n);
          b2 = b1(to := b1 to + n)
      in w\<lparr>balances := (balances w)(token := b2)\<rparr>)"

definition set_allowance :: "address \<Rightarrow> address \<Rightarrow> address \<Rightarrow> nat \<Rightarrow> ledger \<Rightarrow> ledger" where
  "set_allowance token owner spender n w =
     w\<lparr>allowances := (allowances w)(token :=
          (allowances w token)(owner := (allowances w token owner)(spender := n)))\<rparr>"

definition erc20_transferFrom ::
  "address \<Rightarrow> address \<Rightarrow> address \<Rightarrow> address \<Rightarrow> uint256 \<Rightarrow> ledger \<Rightarrow> string + bool \<times> ledger" where
  "erc20_transferFrom token spender from to amount w =
     (if allowances w token from spender < unat amount \<or> balances w token from < unat amount
      then Inr (False, w)
      else Inr (True,
        move_tokens token from to (unat amount)
          (set_allowance token from spender
             (allowances w token from spender - unat amount) w)))"

definition erc20_approve ::
  "address \<Rightarrow> address \<Rightarrow> address \<Rightarrow> uint256 \<Rightarrow> ledger \<Rightarrow> string + bool \<times> ledger" where
  "erc20_approve token owner spender amount w =
     Inr (True, set_allowance token owner spender (unat amount) w)"

text \<open>
  Modelled from the spec: a router as the tests of spec 8 and 9 mock it.  It quotes an
  output amount for the request (\<open>quote\<close>, any function), pulls the input amount from
  its caller into the pool with the allowance it was granted, lets the pool pay the
  quoted amount to the recipient, and returns the amount.  It does not enforce
  \<open>minOutputAmount\<close> itself, so that it can return less (spec 8: "router returns 90").
\<close>

definition mock_swapExactInputSingle ::
  "(SwapSingleParams \<Rightarrow> uint256) \<Rightarrow> address \<Rightarrow>
   address \<Rightarrow> address \<Rightarrow> SwapSingleParams \<Rightarrow> ledger \<Rightarrow> string + uint256 \<times> ledger" where
  "mock_swapExactInputSingle quote pool rtr sender p w =
     (case erc20_transferFrom (tokenFrom p) rtr sender pool (inputAmount p) w of
        Inr (True, w1) \<Rightarrow>
          if balances w1 (tokenTo p) pool < unat (quote p) then Inl ''Insufficient liquidity''
          else Inr (quote p, move_tokens (tokenTo p) pool (recipient p) (unat (quote p)) w1)
      | _ \<Rightarrow> Inl ''STF'')"

definition reference_env :: "(SwapSingleParams \<Rightarrow> uint256) \<Rightarrow> address \<Rightarrow> ledger env" where
  "reference_env quote pool = \<lparr>
     transferFrom = erc20_transferFrom,
     approve = erc20_approve,
     swapExactInputSingle = mock_swapExactInputSingle quote pool\<rparr>"

text \<open>
  The scenario of spec 8: the caller holds 100 units of token A and has authorised the
  contract for them, the pool holds 500 units of token B, and nobody holds anything
  else.  The request swaps 100 A for at least 95 B, paid to a receiver.
\<close>

definition tokenA :: address where "tokenA = 10"
definition tokenB :: address where "tokenB = 11"
definition caller_account :: address where "caller_account = 1"
definition receiver_account :: address where "receiver_account = 2"
definition contract_address :: address where "contract_address = 7"
definition router_address :: address where "router_address = 8"
definition pool_address :: address where "pool_address = 9"

definition deployed :: TokenExchange where
  "deployed = constructor router_address tokenA"

definition scenario_ledger :: ledger where
  "scenario_ledger = \<lparr>
     balances = (\<lambda>t a. if t = tokenA \<and> a = caller_account then 100
                        else if t = tokenB \<and> a = pool_address then 500 else 0),
     allowances = (\<lambda>t a s. if t = tokenA \<and> a = caller_account \<and> s = contract_address
                             then 100 else 0)\<rparr>"

definition scenario_details :: SwapSingleParams where
  "scenario_details = \<lparr>
     tokenFrom = tokenA, tokenTo = tokenB, feeRate = 3000, recipient = receiver_account,
     deadline = 1700000000, inputAmount = 100, minOutputAmount = 95, priceLimit = 0\<rparr>"


section \<open>The quote script \<open>index.ts\<close>\<close>

subsection \<open>Numbers and strings of JavaScript\<close>

text \<open>
  A string is the list of the bytes of its UTF-8 encoding.  The numbers the script
  prints are integers (a \<open>bigint\<close>, an array length, a chain id) and results of
  \<open>parseInt\<close>; \<open>nat_toString\<close> is \<open>toString()\<close> on a non-negative integer: its decimal
  digits.
\<close>

definition digit_char :: "nat \<Rightarrow> char" where
  "digit_char d = ''0123456789'' ! d"

fun nat_toString :: "nat \<Rightarrow> string" where
  "nat_toString n =
     (if n < 10 then [digit_char n] else nat_toString (n div 10) @ [digit_char (n mod 10)])"

declare nat_toString.simps [simp del]

text \<open>
  The white space \<open>parseInt\<close> strips from the front of its argument: the code points
  of \<open>WhiteSpace\<close> and \<open>LineTerminator\<close>, each in its UTF-8 encoding.  These are TAB,
  LF, VT, FF, CR, SP, U+00A0, U+1680, U+2000 to U+200A, U+2028, U+2029, U+202F,
  U+205F, U+3000 and U+FEFF.
\<close>

definition white_space :: "string set" where
  "white_space = set
     [[CHR 0x09], [CHR 0x0A], [CHR 0x0B], [CHR 0x0C], [CHR 0x0D], [CHR 0x20],
      [CHR 0xC2, CHR 0xA0],
      [CHR 0xE1, CHR 0x9A, CHR 0x80],
      [CHR 0xE2, CHR 0x80, CHR 0x80], [CHR 0xE2, CHR 0x80, CHR 0x81],
      [CHR 0xE2, CHR 0x80, CHR 0x82], [CHR 0xE2, CHR 0x80, CHR 0x83],
      [CHR 0xE2, CHR 0x80, CHR 0x84], [CHR 0xE2, CHR 0x80, CHR 0x85],
      [CHR 0xE2, CHR 0x80, CHR 0x86], [CHR 0xE2, CHR 0x80, CHR 0x87],
      [CHR 0xE2, CHR 0x80, CHR 0x88], [CHR 0xE2, CHR 0x80, CHR 0x89],
      [CHR 0xE2, CHR 0x80, CHR 0x8A],
      [CHR 0xE2, CHR 0x80, CHR 0xA8], [CHR 0xE2, CHR 0x80, CHR 0xA9],
      [CHR 0xE2, CHR 0x80, CHR 0xAF],
      [CHR 0xE2, CHR 0x81, CHR 0x9F],
      [CHR 0xE3, CHR 0x80, CHR 0x80],
      [CHR 0xEF, CHR 0xBB, CHR 0xBF]]"

fun skip_white_space :: "string \<Rightarrow> string" where
  "skip_white_space (a # b # c # s) =
     (if [a] \<in> white_space then skip_white_space (b # c # s)
      else if [a, b] \<in> white_space then skip_white_space (c # s)
      else if [a, b, c] \<in> white_space then skip_white_space s
      else a # b # c # s)"
| "skip_white_space [a, b] =
     (if [a] \<in> white_space then skip_white_space [b]
      else if [a, b] \<in> white_space then []
      else [a, b])"
| "skip_white_space [a] = (if [a] \<in> white_space then [] else [a])"
| "skip_white_space [] = []"

text \<open>
  The numbers the script computes with.  \<open>Integer n\<close> is an integer of at most
  \<open>2 ^ 53\<close> in absolute value, which a double holds exactly.  \<open>Rounded n\<close> is the
  double the engine rounds the integer \<open>n\<close> to, for \<open>n\<close> beyond that range (infinity
  when \<open>n\<close> is too large for a double); the model does not compute it, it has the
  sign of \<open>n\<close>.  \<open>Uncomputed\<close> is a number the model says nothing about.
\<close>

datatype js_number = NaN | Integer int | Rounded int | Uncomputed

definition js_integer :: "int \<Rightarrow> js_number" where
  "js_integer n = (if \<bar>n\<bar> \<le> 2 ^ 53 then Integer n else Rounded n)"

text \<open>
  \<open>parseInt\<close> with one argument: leading white space is skipped, a sign is read, the
  prefix \<open>0x\<close> or \<open>0X\<close> selects radix 16 and radix 10 is used otherwise, and the
  longest run of digits of the radix is the value; without a digit the result is
  \<open>NaN\<close>.
\<close>

definition digit_value :: "char \<Rightarrow> nat option" where
  "digit_value ch =
     (let k = of_char ch :: nat in
      if 48 \<le> k \<and> k \<le> 57 then Some (k - 48)
      else if 97 \<le> k \<and> k \<le> 102 then Some (k - 87)
      else if 65 \<le> k \<and> k \<le> 70 then Some (k - 55)
      else None)"

definition is_digit_in :: "nat \<Rightarrow> char \<Rightarrow> bool" where
  "is_digit_in radix ch = (case digit_value ch of None \<Rightarrow> False | Some v \<Rightarrow> v < radix)"

definition digits_value :: "nat \<Rightarrow> string \<Rightarrow> nat" where
  "digits_value radix ds = foldl (\<lambda>acc ch. radix * acc + the (digit_value ch)) 0 ds"

definition parseInt :: "string \<Rightarrow> js_number" where
  "parseInt inputString =
     (let s = skip_white_space inputString;
          negative = (s \<noteq> [] \<and> hd s = CHR ''-'');
          s = (if s \<noteq> [] \<and> (hd s = CHR ''+'' \<or> hd s = CHR ''-'') then tl s else s);
          hex = (take 2 s = ''0x'' \<or> take 2 s = ''0X'');
          radix = (if hex then 16 else 10);
          s = (if hex then drop 2 s else s);
          z = takeWhile (is_digit_in radix) s
      in if z = [] then NaN
         else js_integer ((if negative then - 1 else 1) * int (digits_value radix z)))"

text \<open>
  \<open>fixed2 n\<close> is the decimal numeral of \<open>n / 100\<close> with two fractional digits, the
  sign first.
\<close>

definition fixed2 :: "int \<Rightarrow> string" where
  "fixed2 n =
     (if n < 0 then ''-'' else []) @ nat_toString (nat \<bar>n\<bar> div 100) @ ''.'' @
     [digit_char (nat \<bar>n\<bar> mod 100 div 10), digit_char (nat \<bar>n\<bar> mod 10)]"

text \<open>
  \<open>(parseInt(x) / 100).toFixed(2)\<close>: \<open>NaN\<close> prints as \<open>NaN\<close>.  For an integer \<open>n\<close>
  with \<open>\<bar>n\<bar> < 10 ^ 15\<close> the double nearest to \<open>n / 100\<close> lies within a thousandth
  of \<open>n / 100\<close>, so the digits printed are those of \<open>n / 100\<close> itself.  For any other
  number the digits depend on the engine's double arithmetic, which the model does
  not compute: there the string printed is a parameter, \<open>beyond x\<close>.
\<close>

definition div100_toFixed2 :: "(string \<Rightarrow> string) \<Rightarrow> string \<Rightarrow> string" where
  "div100_toFixed2 beyond x =
     (case parseInt x of
        NaN \<Rightarrow> ''NaN''
      | Integer n \<Rightarrow> if \<bar>n\<bar> < 10 ^ 15 then fixed2 n else beyond x
      | _ \<Rightarrow> beyond x)"

text \<open>
  \<open>(parseInt(x) / 100).toFixed(2) > 0\<close> compares the number the printed string stands
  for with zero, and that number has the sign of \<open>parseInt(x)\<close>; \<open>NaN\<close> is not
  greater than anything.
\<close>

definition is_positive :: "js_number \<Rightarrow> bool" where
  "is_positive x =
     (case x of Integer n \<Rightarrow> 0 < n | Rounded n \<Rightarrow> 0 < n | _ \<Rightarrow> False)"

text \<open>
  Addition of numbers, which the script uses for a total it never reads: \<open>NaN\<close>
  absorbs, and the sum of two integers is the integer, or the double it rounds to.
\<close>

definition js_plus :: "js_number \<Rightarrow> js_number \<Rightarrow> js_number" where
  "js_plus a b =
     (case (a, b) of
        (NaN, _) \<Rightarrow> NaN
      | (_, NaN) \<Rightarrow> NaN
      | (Integer x, Integer y) \<Rightarrow> js_integer (x + y)
      | _ \<Rightarrow> Uncomputed)"

text \<open>\<open>Array.prototype.join\<close>.\<close>

fun join :: "string \<Rightarrow> string list \<Rightarrow> string" where
  "join sep [] = []"
| "join sep [x] = x"
| "join sep (x # y # ys) = x @ sep @ join sep (y # ys)"

text \<open>A value read from \<open>process.env\<close> is truthy when it is set and not empty.\<close>

definition truthy :: "string option \<Rightarrow> bool" where
  "truthy v = (case v of None \<Rightarrow> False | Some s \<Rightarrow> s \<noteq> [])"

subsection \<open>What the script reads from the outside\<close>

text \<open>
  The bodies of the API's responses, with the parts the script reads.  A part at the top
  level of a body is optional (an error body has none of them); \<open>allowance\<close> is
  \<open>None\<close> for \<open>null\<close>.  The parts below the top level are as the API's schema gives
  them: objects with their keys present, and strings at the leaves.
\<close>

record sources_result =
  sources :: "string list option"

record allowance_issue =
  spender :: string

record price_issues =
  allowance :: "allowance_issue option"

record price_data =
  issues :: "price_issues option"

record fill =
  source :: string
  proportionBps :: string

record trade_route =
  fills :: "fill list"

record token_tax =
  buyTaxBps :: string
  sellTaxBps :: string

record token_metadata =
  buyToken :: token_tax
  sellToken :: token_tax

record quote_data =
  route :: "trade_route option"
  tokenMetadata :: "token_metadata option"
  affiliateFeeBps :: "string option"
  tradeSurplus :: "string option"

text \<open>
  What the wallet library's \<open>simulate.approve\<close> resolves to: an object, of which the
  script reads the property \<open>args\<close> (\<open>None\<close> when the object has no such property:
  reading it gives \<open>undefined\<close>).  \<open>request\<close> is the arguments of the prepared write
  request the object carries under its property \<open>request\<close>.
\<close>

record simulation =
  args :: "(string \<times> nat) option"
  request :: "(string \<times> nat) option"

text \<open>
  The outside world of one run: the process environment, the constants of the imported
  libraries, and the answer to each request the script can make (\<open>Inl\<close> when the
  awaited call throws).  The script makes each request at most once, so one answer per
  request describes a run.  The answer to an HTTP request stands for \<open>fetch\<close> and the
  reading of the JSON body after it; \<open>fetch\<close> does not throw on an error status, so an
  error body is an answer like any other.  \<open>scroll_id\<close> is the chain id of the imported
  chain description, \<open>account_response\<close> what \<open>privateKeyToAccount\<close> gives (the
  account's address, or the error it throws on a malformed key),
  \<open>parseFloat_positive s\<close> whether \<open>parseFloat(s) > 0\<close>, and \<open>toFixed2_beyond x\<close>
  what \<open>(parseInt(x) / 100).toFixed(2)\<close> gives where \<open>parseInt(x)\<close> is a number of
  \<open>10 ^ 15\<close> or more in absolute value; both are floating-point computations of
  the engine that are left to the outside.
\<close>

record world =
  PRIVATE_KEY :: "string option"
  ZERO_EX_API_KEY :: "string option"
  ALCHEMY_HTTP_TRANSPORT_URL :: "string option"
  scroll_id :: nat
  account_response :: "string + string"
  addresses_response :: "string + string list"
  sources_response :: "string + sources_result"
  decimals_response :: "string + nat"
  price_response :: "string + price_data"
  simulate_response :: "string + simulation"
  write_response :: "string + string"
  quote_response :: "string + quote_data"
  parseFloat_positive :: "string \<Rightarrow> bool"
  toFixed2_beyond :: "string \<Rightarrow> string"

subsection \<open>Runs\<close>

text \<open>
  What a run does that can be seen from outside, in order: wallet operations, HTTP
  requests (URL, query parameters, headers), contract calls, and console output.
\<close>

datatype logged = Str string | PriceObj price_data | QuoteObj quote_data | ErrObj string

datatype event =
    PrivateKeyToAccount string
  | GetAddresses
  | HttpGet string "(string \<times> string) list" "(string \<times> string) list"
  | ReadDecimals string
  | SimulateApprove string "string \<times> nat"
  | WriteApprove string "(string \<times> nat) option"
  | ConsoleLog "logged list"
  | ConsoleError "logged list"

text \<open>
  A piece of the script gives the events it caused, in order, and either the error it
  threw or its value.
\<close>

type_synonym 'a js = "event list \<times> (string + 'a)"

definition returnJ :: "'a \<Rightarrow> 'a js" where
  "returnJ a = ([], Inr a)"

definition throwJ :: "string \<Rightarrow> 'a js" where
  "throwJ err = ([], Inl err)"

definition bindJ :: "'a js \<Rightarrow> ('a \<Rightarrow> 'b js) \<Rightarrow> 'b js" where
  "bindJ m f =
     (case m of
        (t1, Inl err) \<Rightarrow> (t1, Inl err)
      | (t1, Inr a) \<Rightarrow> (case f a of (t2, r) \<Rightarrow> (t1 @ t2, r)))"

definition try_catch :: "'a js \<Rightarrow> (string \<Rightarrow> 'a js) \<Rightarrow> 'a js" where
  "try_catch m handler =
     (case m of
        (t1, Inl err) \<Rightarrow> (case handler err of (t2, r) \<Rightarrow> (t1 @ t2, r))
      | (t1, Inr a) \<Rightarrow> (t1, Inr a))"

definition await :: "event \<Rightarrow> string + 'a \<Rightarrow> 'a js" where
  "await call response = ([call], response)"

definition console_log :: "logged list \<Rightarrow> unit js" where
  "console_log xs = ([ConsoleLog xs], Inr ())"

definition console_error :: "logged list \<Rightarrow> unit js" where
  "console_error xs = ([ConsoleError xs], Inr ())"

fun forEach :: "'a list \<Rightarrow> ('a \<Rightarrow> unit js) \<Rightarrow> unit js" where
  "forEach [] f = returnJ ()"
| "forEach (x # xs) f = bindJ (f x) (\<lambda>_. forEach xs f)"

subsection \<open>The script\<close>

definition weth_address :: string where
  "weth_address = ''0x5300000000000000000000000000000000000004''"

definition wstEth_address :: string where
  "wstEth_address = ''0xf610A9dfB7C89644979b4A0f27063E9e7d7Cda32''"

text \<open>The wallet library's constant \<open>maxUint256\<close>.\<close>

definition maxUint256 :: nat where
  "maxUint256 = 2 ^ 256 - 1"

text \<open>
  The wallet library's \<open>parseUnits\<close> at the literal \<open>"0.1"\<close>: one tenth of a unit of
  \<open>decimals\<close> decimals, which is nothing when there are no decimals.
\<close>

definition parseUnits_tenth :: "nat \<Rightarrow> nat" where
  "parseUnits_tenth decimals = 10 ^ decimals div 10"

definition requestHeaders :: "string \<Rightarrow> (string \<times> string) list" where
  "requestHeaders key =
     [(''Content-Type'', ''application/json''), (''0x-api-key'', key), (''0x-version'', ''v2'')]"

definition sources_url :: string where
  "sources_url = ''https://api.0x.org/swap/v1/sources''"

definition price_url :: string where
  "price_url = ''https://api.0x.org/swap/permit2/price''"

definition quote_url :: string where
  "quote_url = ''https://api.0x.org/swap/permit2/quote''"

text \<open>
  \<open>printLiquidityBreakdown\<close>: the total of the basis points is computed and never
  read; a line is printed for the number of sources and one for each source.
\<close>

definition printLiquidityBreakdown :: "world \<Rightarrow> trade_route \<Rightarrow> unit js" where
  "printLiquidityBreakdown W tradeRoute =
     (let liquiditySources = fills tradeRoute;
          totalBps = foldl (\<lambda>total src. js_plus total (parseInt (proportionBps src)))
                       (Integer 0) liquiditySources
      in
      bindJ (console_log
               [Str (nat_toString (length liquiditySources) @ '' Liquidity Sources:'')]) (\<lambda>_.
      forEach liquiditySources (\<lambda>src.
        let proportionPercentage = div100_toFixed2 (toFixed2_beyond W) (proportionBps src)
        in console_log [Str (source src @ '': '' @ proportionPercentage @ ''%'')])))"

text \<open>
  \<open>showTokenTaxInfo\<close>: the four taxes are the strings \<open>toFixed(2)\<close> gives; each is
  compared with zero as the number it stands for.
\<close>

definition showTokenTaxInfo :: "world \<Rightarrow> token_metadata \<Rightarrow> unit js" where
  "showTokenTaxInfo W tokenDetails =
     (let buyTokenBuyTax = div100_toFixed2 (toFixed2_beyond W) (buyTaxBps (buyToken tokenDetails));
          buyTokenSellTax = div100_toFixed2 (toFixed2_beyond W) (sellTaxBps (buyToken tokenDetails));
          sellTokenBuyTax = div100_toFixed2 (toFixed2_beyond W) (buyTaxBps (sellToken tokenDetails));
          sellTokenSellTax =
            div100_toFixed2 (toFixed2_beyond W) (sellTaxBps (sellToken tokenDetails))
      in
      bindJ (if is_positive (parseInt (buyTaxBps (buyToken tokenDetails))) \<or>
                is_positive (parseInt (sellTaxBps (buyToken tokenDetails)))
             then bindJ (console_log [Str (''Buy Token Buy Tax: '' @ buyTokenBuyTax @ ''%'')]) (\<lambda>_.
                  console_log [Str (''Buy Token Sell Tax: '' @ buyTokenSellTax @ ''%'')])
             else returnJ ()) (\<lambda>_.
      if is_positive (parseInt (buyTaxBps (sellToken tokenDetails))) \<or>
         is_positive (parseInt (sellTaxBps (sellToken tokenDetails)))
      then bindJ (console_log [Str (''Sell Token Buy Tax: '' @ sellTokenBuyTax @ ''%'')]) (\<lambda>_.
           console_log [Str (''Sell Token Sell Tax: '' @ sellTokenSellTax @ ''%'')])
      else returnJ ()))"

definition fetchLiquiditySources :: "world \<Rightarrow> string \<Rightarrow> unit js" where
  "fetchLiquiditySources W key =
     (let scrollChainId = nat_toString (scroll_id W);
          queryParams = [(''chainId'', scrollChainId)]
      in
      bindJ (await (HttpGet sources_url queryParams (requestHeaders key))
               (sources_response W)) (\<lambda>sourcesResult.
      case sources sourcesResult of
        None \<Rightarrow> throwJ ''TypeError: Cannot convert undefined or null to object''
      | Some availableSources \<Rightarrow>
          bindJ (console_log [Str ''Liquidity Sources on Scroll:'']) (\<lambda>_.
          console_log [Str (join '', '' availableSources)])))"

text \<open>
  The query parameters of the price request, in the order the script lists them.
  \<open>URLSearchParams\<close> keeps its entries in order; the quote's parameters are filled by
  appending each entry of the price's.
\<close>

definition priceQueryParams :: "nat \<Rightarrow> string \<Rightarrow> nat \<Rightarrow> (string \<times> string) list" where
  "priceQueryParams chainId taker amountToSell =
     [(''chainId'', nat_toString chainId),
      (''sellToken'', weth_address),
      (''buyToken'', wstEth_address),
      (''sellAmount'', nat_toString amountToSell),
      (''taker'', taker),
      (''affiliateFee'', ''100''),
      (''surplusCollection'', ''true'')]"

text \<open>Lines 155 to 172 of \<open>mainExecution\<close>: the approval, when the price response asks for one.\<close>

definition permit2Approval :: "world \<Rightarrow> price_data \<Rightarrow> unit js" where
  "permit2Approval W priceData =
     (case issues priceData of
        None \<Rightarrow> throwJ ''TypeError: Cannot read properties of undefined''
      | Some priceIssues \<Rightarrow>
          (case allowance priceIssues of
             Some allowanceIssue \<Rightarrow>
               try_catch
                 (bindJ (await (SimulateApprove weth_address (spender allowanceIssue, maxUint256))
                           (simulate_response W)) (\<lambda>approvalSimulation.
                  bindJ (console_log [Str ''Initiating approval for Permit2 to use WETH...'']) (\<lambda>_.
                  bindJ (await (WriteApprove weth_address (args approvalSimulation))
                           (write_response W)) (\<lambda>approvalTransactionHash.
                  console_log [Str ''Permit2 approval transaction hash:'',
                               Str approvalTransactionHash]))))
                 (\<lambda>approvalError.
                  console_error [Str ''Permit2 approval error:'', ErrObj approvalError])
           | None \<Rightarrow> console_log [Str ''No Permit2 approval required for WETH.'']))"

text \<open>Lines 191 to 209 of \<open>mainExecution\<close>: the metrics derived from the quote.\<close>

definition printMetrics :: "world \<Rightarrow> quote_data \<Rightarrow> unit js" where
  "printMetrics W quoteData =
     bindJ (case route quoteData of
              Some r \<Rightarrow> printLiquidityBreakdown W r
            | None \<Rightarrow> returnJ ()) (\<lambda>_.
     bindJ (case tokenMetadata quoteData of
              Some m \<Rightarrow> showTokenTaxInfo W m
            | None \<Rightarrow> returnJ ()) (\<lambda>_.
     bindJ (if truthy (affiliateFeeBps quoteData)
            then let affiliateFee =
                       div100_toFixed2 (toFixed2_beyond W) (the (affiliateFeeBps quoteData))
                 in console_log [Str (''Affiliate Fee: '' @ affiliateFee @ ''%'')]
            else returnJ ()) (\<lambda>_.
     if truthy (tradeSurplus quoteData) \<and> parseFloat_positive W (the (tradeSurplus quoteData))
     then console_log [Str (''Collected Trade Surplus: '' @ the (tradeSurplus quoteData))]
     else returnJ ())))"

definition mainExecution :: "world \<Rightarrow> string \<Rightarrow> string \<Rightarrow> unit js" where
  "mainExecution W key taker =
     bindJ (fetchLiquiditySources W key) (\<lambda>_.
     bindJ (await (ReadDecimals weth_address) (decimals_response W)) (\<lambda>wethDecimals.
     let amountToSell = parseUnits_tenth wethDecimals;
         priceParams = priceQueryParams (scroll_id W) taker amountToSell
     in
     bindJ (await (HttpGet price_url priceParams (requestHeaders key))
              (price_response W)) (\<lambda>priceData.
     bindJ (console_log [Str ''Price data for swapping 0.1 WETH for wstETH:'']) (\<lambda>_.
     bindJ (console_log [PriceObj priceData]) (\<lambda>_.
     bindJ (permit2Approval W priceData) (\<lambda>_.
     let quoteQueryParams = foldl (\<lambda>q (k, v). q @ [(k, v)]) [] priceParams
     in
     bindJ (await (HttpGet quote_url quoteQueryParams (requestHeaders key))
              (quote_response W)) (\<lambda>quoteData.
     bindJ (console_log [Str ''Quote data for swapping 0.1 WETH for wstETH:'']) (\<lambda>_.
     bindJ (console_log [QuoteObj quoteData]) (\<lambda>_.
     printMetrics W quoteData)))))))))"

text \<open>
  The module from its first statement: the three checks of the process environment,
  the wallet client, and the call of \<open>mainExecution\<close>.
\<close>

definition script :: "world \<Rightarrow> unit js" where
  "script W =
     (if \<not> truthy (PRIVATE_KEY W) then throwJ ''Error: PRIVATE_KEY is not defined.''
      else if \<not> truthy (ZERO_EX_API_KEY W) then throwJ ''Error: ZERO_EX_API_KEY is not defined.''
      else if \<not> truthy (ALCHEMY_HTTP_TRANSPORT_URL W)
        then throwJ ''Error: ALCHEMY_HTTP_TRANSPORT_URL is not defined.''
      else
        bindJ (await (PrivateKeyToAccount (''0x'' @ the (PRIVATE_KEY W)))
                 (account_response W)) (\<lambda>account.
        bindJ (await GetAddresses (addresses_response W)) (\<lambda>addresses.
        mainExecution W (the (ZERO_EX_API_KEY W)) account)))"

subsection \<open>Vocabulary for the properties\<close>

text \<open>
  The calls a run makes to the outside (everything but console output), and among
  them the two calls of the approval.
\<close>

definition is_call :: "event \<Rightarrow> bool" where
  "is_call e = (case e of ConsoleLog _ \<Rightarrow> False | ConsoleError _ \<Rightarrow> False | _ \<Rightarrow> True)"

definition is_approval :: "event \<Rightarrow> bool" where
  "is_approval e =
     (case e of SimulateApprove _ _ \<Rightarrow> True | WriteApprove _ _ \<Rightarrow> True | _ \<Rightarrow> False)"

text \<open>The listing request is answered, and the answer has the \<open>sources\<close> object.\<close>

definition listing_ok :: "world \<Rightarrow> bool" where
  "listing_ok W =
     (case sources_response W of Inl err \<Rightarrow> False | Inr sr \<Rightarrow> sources sr \<noteq> None)"

text \<open>The error the approval ends with, if its simulation or its transaction throws.\<close>

definition approval_failure :: "world \<Rightarrow> string option" where
  "approval_failure W =
     (case simulate_response W of
        Inl err \<Rightarrow> Some err
      | Inr sim \<Rightarrow> (case write_response W of Inl err \<Rightarrow> Some err | Inr h \<Rightarrow> None))"

text \<open>
  The conditional allowance grant of spec 4.3, as a function of the price response:
  no call when the response asks for no allowance (its allowance issue is \<open>null\<close>),
  and otherwise the simulation of an approval of the named spender and of
  \<open>maxUint256\<close>, followed, when the simulation resolves, by the transaction written
  with the property \<open>args\<close> of what it resolved to.  A response without \<open>issues\<close>
  stops the run before any grant.
\<close>

definition approval_calls :: "world \<Rightarrow> price_data \<Rightarrow> event list" where
  "approval_calls W pd =
     (case issues pd of
        None \<Rightarrow> []
      | Some iss \<Rightarrow>
          (case allowance iss of
             None \<Rightarrow> []
           | Some issue \<Rightarrow>
               SimulateApprove weth_address (spender issue, maxUint256) #
               (case simulate_response W of
                  Inl err \<Rightarrow> []
                | Inr sim \<Rightarrow> [WriteApprove weth_address (args sim)])))"

text \<open>
  The sequence of spec 4.3, in the spec's words: the listing request, the decimals
  lookup, the price request, the calls of the conditional allowance grant, and the
  quote request with the query parameters of the price request.  Price and quote
  requests exist once the decimals are known, the grant once the price is.
\<close>

definition request_sequence :: "world \<Rightarrow> string \<Rightarrow> string \<Rightarrow> event list" where
  "request_sequence W key taker =
     (let headers = requestHeaders key in
      [HttpGet sources_url [(''chainId'', nat_toString (scroll_id W))] headers,
       ReadDecimals weth_address] @
      (case decimals_response W of
         Inl err \<Rightarrow> []
       | Inr d \<Rightarrow>
           (let params = priceQueryParams (scroll_id W) taker (parseUnits_tenth d) in
            [HttpGet price_url params headers] @
            (case price_response W of Inl err \<Rightarrow> [] | Inr pd \<Rightarrow> approval_calls W pd) @
            [HttpGet quote_url params headers])))"

text \<open>
  The number a printed percentage stands for: \<open>read_fixed2\<close> reads a decimal numeral
  with two fractional digits as a count of hundredths.
\<close>

definition read_fixed2 :: "string \<Rightarrow> int option" where
  "read_fixed2 s =
     (let negative = (s \<noteq> [] \<and> hd s = CHR ''-'');
          t = (if negative then tl s else s);
          whole = takeWhile (\<lambda>ch. ch \<noteq> CHR ''.'') t;
          frac = drop 1 (dropWhile (\<lambda>ch. ch \<noteq> CHR ''.'') t)
      in if whole \<noteq> [] \<and> list_all (is_digit_in 10) whole \<and>
            length frac = 2 \<and> list_all (is_digit_in 10) frac
         then Some ((if negative then - 1 else 1) *
                    int (100 * digits_value 10 whole + digits_value 10 frac))
         else None)"

definition percentage_value :: "string \<Rightarrow> rat option" where
  "percentage_value s = map_option (\<lambda>h. of_int h / 100) (read_fixed2 s)"

text \<open>The integer of a number that is one of the integers a double holds exactly.\<close>

definition integer_of :: "js_number \<Rightarrow> int" where
  "integer_of x = (case x of Integer n \<Rightarrow> n | _ \<Rightarrow> 0)"

subsection \<open>A run\<close>

text \<open>
  One outside world: the configuration is complete, every request is answered, the
  price response names Permit2 as the spender that lacks an allowance, and the
  simulation resolves to the object the wallet library documents, \<open>{result, request}\<close>
  with the call's arguments under \<open>request.args\<close> and no property \<open>args\<close> of its
  own.  The library cannot encode a call of \<open>approve\<close> without arguments, so the
  write throws.  Every number of the quote lies in the range where the digits printed
  are computed, so the run never consults \<open>toFixed2_beyond\<close>.
\<close>

definition permit2 :: string where
  "permit2 = ''0x000000000022D473030F116dDEE9F6B43aC78BA3''"

definition taker_address :: string where
  "taker_address = ''0x70997970C51812dc3A010C7d01b50e0d17dc79C8''"

definition run_quote :: quote_data where
  "run_quote = \<lparr>
     route = Some \<lparr>fills = [\<lparr>source = ''Ambient'', proportionBps = ''6000''\<rparr>,
                             \<lparr>source = ''Nuri'', proportionBps = ''4000''\<rparr>]\<rparr>,
     tokenMetadata = Some \<lparr>buyToken = \<lparr>buyTaxBps = ''0'', sellTaxBps = ''0''\<rparr>,
                           sellToken = \<lparr>buyTaxBps = ''0'', sellTaxBps = ''150''\<rparr>\<rparr>,
     affiliateFeeBps = Some ''100'',
     tradeSurplus = Some ''12''\<rparr>"

definition run_world :: world where
  "run_world = \<lparr>
     PRIVATE_KEY = Some ''59c6995e998f97a5a0044966f0945389dc9e86dae88c7a8412f4603b6b78690d'',
     ZERO_EX_API_KEY = Some ''api-key'',
     ALCHEMY_HTTP_TRANSPORT_URL = Some ''https://scroll-mainnet.g.alchemy.com/v2/key'',
     scroll_id = 534352,
     account_response = Inr taker_address,
     addresses_response = Inr [taker_address],
     sources_response = Inr \<lparr>sources = Some [''Ambient'', ''Nuri'']\<rparr>,
     decimals_response = Inr 18,
     price_response = Inr \<lparr>issues = Some \<lparr>allowance = Some \<lparr>spender = permit2\<rparr>\<rparr>\<rparr>,
     simulate_response = Inr \<lparr>args = None, request = Some (permit2, maxUint256)\<rparr>,
     write_response = Inl ''AbiEncodingLengthMismatchError'',
     quote_response = Inr run_quote,
     parseFloat_positive = (\<lambda>s. s = ''12''),
     toFixed2_beyond = (\<lambda>x. ''Infinity'')\<rparr>"

text \<open>The same world with a price response that asks for no allowance.\<close>

definition approved_world :: world where
  "approved_world = run_world\<lparr>price_response := Inr \<lparr>issues = Some \<lparr>allowance = None\<rparr>\<rparr>\<rparr>"

text \<open>
  A route whose proportions do not add up to 10000 basis points; the second proportion
  is written after a byte order mark (U+FEFF).
\<close>

definition short_route :: trade_route where
  "short_route =
     \<lparr>fills = [\<lparr>source = ''Ambient'', proportionBps = ''6000''\<rparr>,
               \<lparr>source = ''Nuri'',
                proportionBps = CHR 0xEF # CHR 0xBB # CHR 0xBF # ''3333''\<rparr>]\<rparr>"

section \<open>Properties of \<open>exchange\<close>\<close>

lemmas exchange_defs =
  exchange_def exchange_body_def bindE_def call_ext_def require_def Let_def

lemmas reference_defs =
  reference_env_def erc20_transferFrom_def erc20_approve_def
  mock_swapExactInputSingle_def move_tokens_def set_allowance_def

lemmas scenario_defs =
  tokenA_def tokenB_def caller_account_def receiver_account_def contract_address_def
  router_address_def pool_address_def deployed_def constructor_def scenario_ledger_def
  scenario_details_def

text \<open>What a run does when all three external calls return.\<close>

lemma exchange_three_calls:
  assumes "transferFrom E inputToken this msg_sender this amt w = Inr (True, w1)"
      and "approve E inputToken this (router c) amt w1 = Inr (True, w2)"
      and "swapExactInputSingle E (router c) this
             \<lparr>tokenFrom = inputToken, tokenTo = outputToken, feeRate = 3000,
              recipient = receiver, deadline = now, inputAmount = amt,
              minOutputAmount = minOutput, priceLimit = 0\<rparr> w2 = Inr (out, w3)"
  shows "exchange E c this msg_sender now inputToken outputToken amt minOutput receiver w =
     ([TransferFromCall inputToken msg_sender this amt,
       ApproveCall inputToken (router c) amt,
       SwapExactInputSingleCall (router c)
         \<lparr>tokenFrom = inputToken, tokenTo = outputToken, feeRate = 3000,
          recipient = receiver, deadline = now, inputAmount = amt,
          minOutputAmount = minOutput, priceLimit = 0\<rparr>],
      if minOutput \<le> out then w3 else w,
      if minOutput \<le> out then Inr () else Inl ''Insufficient output'')"
  using assms by (simp add: exchange_defs)

lemma exchange_pull_refused:
  assumes "transferFrom E inputToken this msg_sender this amt w = Inr (False, w1)"
  shows "exchange E c this msg_sender now inputToken outputToken amt minOutput receiver w =
     ([TransferFromCall inputToken msg_sender this amt], w, Inl ''Token transfer failed'')"
  using assms by (simp add: exchange_defs)

lemma exchange_approval_refused:
  assumes "transferFrom E inputToken this msg_sender this amt w = Inr (True, w1)"
      and "approve E inputToken this (router c) amt w1 = Inr (False, w2)"
  shows "exchange E c this msg_sender now inputToken outputToken amt minOutput receiver w =
     ([TransferFromCall inputToken msg_sender this amt, ApproveCall inputToken (router c) amt],
      w, Inl ''Approval failed'')"
  using assms by (simp add: exchange_defs)

text \<open>A revert, whatever its reason, leaves the world as it was before the call.\<close>

lemma exchange_revert_restores:
  assumes "snd (snd (exchange E c this msg_sender now inputToken outputToken amt minOutput
                       receiver w)) = Inl reason"
  shows "fst (snd (exchange E c this msg_sender now inputToken outputToken amt minOutput
                     receiver w)) = w"
  using assms by (simp add: exchange_def split: sum.splits prod.splits)

text \<open>The states the scenario passes through.\<close>

lemma scenario_pull:
  "transferFrom (reference_env q pool_address) tokenA contract_address caller_account
     contract_address 100 scenario_ledger =
   Inr (True, move_tokens tokenA caller_account contract_address 100
          (set_allowance tokenA caller_account contract_address 0 scenario_ledger))"
  by (simp add: reference_env_def erc20_transferFrom_def scenario_defs)

lemma scenario_approve:
  "approve (reference_env q pool_address) tokenA contract_address (router deployed) 100 w =
   Inr (True, set_allowance tokenA contract_address router_address 100 w)"
  by (simp add: reference_env_def erc20_approve_def scenario_defs)

lemma scenario_swap:
  assumes "unat (q scenario_details) \<le> 500"
  shows "swapExactInputSingle (reference_env q pool_address) (router deployed) contract_address
     scenario_details
     (set_allowance tokenA contract_address router_address 100
       (move_tokens tokenA caller_account contract_address 100
         (set_allowance tokenA caller_account contract_address 0 scenario_ledger))) =
   Inr (q scenario_details,
     move_tokens tokenB pool_address receiver_account (unat (q scenario_details))
      (move_tokens tokenA contract_address pool_address 100
        (set_allowance tokenA contract_address router_address 0
          (set_allowance tokenA contract_address router_address 100
            (move_tokens tokenA caller_account contract_address 100
              (set_allowance tokenA caller_account contract_address 0 scenario_ledger))))))"
  using assms by (simp add: reference_defs scenario_defs)

subsection \<open>Settlement\<close>

text \<open>
  Claim C1.  With standard token ledgers and a router that settles what it quotes:
  when the caller's allowance to the contract covers \<open>inputAmount\<close> and the router
  returns an output of at least \<open>minOutput\<close>, the call succeeds, the receiver's
  balance of the output token grows by exactly the output, the caller's balance of the
  input token shrinks by exactly \<open>inputAmount\<close>, and the contract's own balance of the
  input token is what it was before the call.  For the router to return, the caller
  must hold the input amount and the pool the output amount; the caller, the contract,
  the pool and the receiver are different accounts where the balances named would
  otherwise be one and the same, and the two tokens differ.
\<close>

theorem exchange_settles_swap:
  assumes allowance_covers:
        "unat amt \<le> allowances w inputToken msg_sender this"
      and caller_holds: "unat amt \<le> balances w inputToken msg_sender"
      and pool_holds:
        "unat (quote \<lparr>tokenFrom = inputToken, tokenTo = outputToken, feeRate = 3000,
                      recipient = receiver, deadline = now, inputAmount = amt,
                      minOutputAmount = minOutput, priceLimit = 0\<rparr>)
         \<le> balances w outputToken pool"
      and output_suffices:
        "minOutput \<le> quote \<lparr>tokenFrom = inputToken, tokenTo = outputToken, feeRate = 3000,
                            recipient = receiver, deadline = now, inputAmount = amt,
                            minOutputAmount = minOutput, priceLimit = 0\<rparr>"
      and parties: "msg_sender \<noteq> this" "pool \<noteq> msg_sender" "pool \<noteq> this" "pool \<noteq> receiver"
      and tokens: "inputToken \<noteq> outputToken"
  shows "(case exchange (reference_env quote pool) c this msg_sender now
                 inputToken outputToken amt minOutput receiver w of
            (calls, w', result) \<Rightarrow>
              result = Inr () \<and>
              balances w' outputToken receiver =
                balances w outputToken receiver +
                unat (quote \<lparr>tokenFrom = inputToken, tokenTo = outputToken, feeRate = 3000,
                             recipient = receiver, deadline = now, inputAmount = amt,
                             minOutputAmount = minOutput, priceLimit = 0\<rparr>) \<and>
              balances w' inputToken msg_sender + unat amt = balances w inputToken msg_sender \<and>
              balances w' inputToken this = balances w inputToken this)"
  using assms by (simp add: exchange_defs reference_defs)

text \<open>The scenario of spec 8: 100 A in, at least 95 B out, the router returns 97.\<close>

theorem exchange_settles_swap_witness:
  "(case exchange (reference_env (\<lambda>_. 97) pool_address) deployed contract_address caller_account
           1700000000 tokenA tokenB 100 95 receiver_account scenario_ledger of
      (calls, w', result) \<Rightarrow>
        result = Inr () \<and>
        balances w' tokenB receiver_account = 97 \<and>
        balances w' tokenA caller_account = 0 \<and>
        balances w' tokenA contract_address = 0)"
  using exchange_settles_swap [of 100 scenario_ledger tokenA caller_account contract_address
      "\<lambda>_. 97" tokenB receiver_account 1700000000 95 pool_address deployed]
  by (simp add: scenario_defs split: prod.splits)

subsection \<open>Rollback on insufficient output\<close>

text \<open>
  Claim C2.  For any token and router: when the router returns an output strictly below
  \<open>minOutput\<close> (so the pull and the approval before it went through), the call reverts
  with the reason "Insufficient output" and the world after the call is the world
  before it, whatever the three external calls had changed: no balance of any party
  differs.
\<close>

theorem exchange_insufficient_output_rolls_back:
  assumes "transferFrom E inputToken this msg_sender this amt w = Inr (True, w1)"
      and "approve E inputToken this (router c) amt w1 = Inr (True, w2)"
      and "swapExactInputSingle E (router c) this
             \<lparr>tokenFrom = inputToken, tokenTo = outputToken, feeRate = 3000,
              recipient = receiver, deadline = now, inputAmount = amt,
              minOutputAmount = minOutput, priceLimit = 0\<rparr> w2 = Inr (out, w3)"
      and "out < minOutput"
  shows "snd (exchange E c this msg_sender now inputToken outputToken amt minOutput receiver w)
         = (w, Inl ''Insufficient output'')"
  using exchange_three_calls [OF assms(1-3)] assms(4) by simp

text \<open>The scenario of spec 8 with a router that returns 90 where 95 is the minimum.\<close>

theorem exchange_insufficient_output_rolls_back_witness:
  "snd (exchange (reference_env (\<lambda>_. 90) pool_address) deployed contract_address caller_account
          1700000000 tokenA tokenB 100 95 receiver_account scenario_ledger)
   = (scenario_ledger, Inl ''Insufficient output'')"
proof -
  have quoted: "unat ((\<lambda>_. 90 :: uint256) scenario_details) \<le> 500" by simp
  have short: "(90 :: uint256) < 95" by simp
  show ?thesis
    using exchange_insufficient_output_rolls_back
      [OF scenario_pull scenario_approve
          scenario_swap [OF quoted, unfolded scenario_details_def] short]
    by simp
qed

subsection \<open>Failure of the token pull\<close>

text \<open>
  Claim C3.  With a standard token ledger, any approval behaviour and any router: when
  the caller's allowance to the contract is below \<open>inputAmount\<close>, the transfer-on-behalf
  reports failure, the call reverts with the reason "Token transfer failed", it makes
  no other external call, and the world (balances and allowances) is unchanged.
\<close>

theorem exchange_transfer_failed:
  assumes "allowances w inputToken msg_sender this < unat amt"
  shows "exchange \<lparr>transferFrom = erc20_transferFrom, approve = approve',
                   swapExactInputSingle = swap'\<rparr>
           c this msg_sender now inputToken outputToken amt minOutput receiver w =
         ([TransferFromCall inputToken msg_sender this amt], w, Inl ''Token transfer failed'')"
  by (rule exchange_pull_refused [where ?w1.0 = w])
     (simp add: erc20_transferFrom_def assms)

text \<open>The scenario's caller has authorised 100 units; the request asks for 101.\<close>

theorem exchange_transfer_failed_witness:
  "exchange (reference_env (\<lambda>_. 97) pool_address) deployed contract_address caller_account
     1700000000 tokenA tokenB 101 95 receiver_account scenario_ledger =
   ([TransferFromCall tokenA caller_account contract_address 101], scenario_ledger,
    Inl ''Token transfer failed'')"
  using exchange_transfer_failed [of scenario_ledger tokenA caller_account contract_address 101
      erc20_approve "mock_swapExactInputSingle (\<lambda>_. 97) pool_address" deployed
      1700000000 tokenB 95 receiver_account]
  by (simp add: reference_env_def scenario_defs)

subsection \<open>The router's parameters\<close>

text \<open>
  Claim C4.  For any token and router: a call that succeeds has called the token's
  transfer-on-behalf and approval, both answered with \<open>true\<close>, and then the router's
  exact-input single-hop swap with the request's two tokens, the fee tier 3000, the
  receiver as recipient, the block timestamp as deadline, \<open>inputAmount\<close> and
  \<open>minOutput\<close> as they were passed, and a price limit of zero.  It is this call of
  the router that returned the output, at least \<open>minOutput\<close>, and the world the call
  of \<open>exchange\<close> ends in; the run made these three calls and no other.
\<close>

theorem exchange_router_parameters:
  assumes "snd (snd (exchange E c this msg_sender now inputToken outputToken amt minOutput
                       receiver w)) = Inr ()"
  shows "\<exists>w1 w2 out.
      transferFrom E inputToken this msg_sender this amt w = Inr (True, w1) \<and>
      approve E inputToken this (router c) amt w1 = Inr (True, w2) \<and>
      swapExactInputSingle E (router c) this
        \<lparr>tokenFrom = inputToken, tokenTo = outputToken, feeRate = 3000,
         recipient = receiver, deadline = now, inputAmount = amt,
         minOutputAmount = minOutput, priceLimit = 0\<rparr> w2 =
        Inr (out, fst (snd (exchange E c this msg_sender now inputToken outputToken amt
                              minOutput receiver w))) \<and>
      minOutput \<le> out \<and>
      fst (exchange E c this msg_sender now inputToken outputToken amt minOutput receiver w) =
        [TransferFromCall inputToken msg_sender this amt,
         ApproveCall inputToken (router c) amt,
         SwapExactInputSingleCall (router c)
           \<lparr>tokenFrom = inputToken, tokenTo = outputToken, feeRate = 3000,
            recipient = receiver, deadline = now, inputAmount = amt,
            minOutputAmount = minOutput, priceLimit = 0\<rparr>]"
proof -
  obtain moved w1 where pull:
    "transferFrom E inputToken this msg_sender this amt w = Inr (moved, w1)"
    using assms by (cases "transferFrom E inputToken this msg_sender this amt w")
      (auto simp: exchange_defs)
  have moved: "moved"
    using assms pull by (cases moved) (auto simp: exchange_defs)
  obtain approved w2 where grant:
    "approve E inputToken this (router c) amt w1 = Inr (approved, w2)"
    using assms pull moved by (cases "approve E inputToken this (router c) amt w1")
      (auto simp: exchange_defs)
  have approved: "approved"
    using assms pull moved grant by (cases approved) (auto simp: exchange_defs)
  let ?details = "\<lparr>tokenFrom = inputToken, tokenTo = outputToken, feeRate = 3000,
         recipient = receiver, deadline = now, inputAmount = amt,
         minOutputAmount = minOutput, priceLimit = 0\<rparr>"
  obtain out w3 where swap:
    "swapExactInputSingle E (router c) this ?details w2 = Inr (out, w3)"
    using assms pull moved grant approved
    by (cases "swapExactInputSingle E (router c) this ?details w2")
       (auto simp: exchange_defs)
  note run = exchange_three_calls [OF pull [unfolded eqTrueI [OF moved]]
                                      grant [unfolded eqTrueI [OF approved]] swap]
  have enough: "minOutput \<le> out"
    using assms run by (cases "minOutput \<le> out") simp_all
  with run pull moved grant approved swap show ?thesis
    by (intro exI [of _ w1] exI [of _ w2] exI [of _ out]) simp
qed

lemma scenario_success:
  "snd (snd (exchange (reference_env (\<lambda>_. 97) pool_address) deployed contract_address
               caller_account 1700000000 tokenA tokenB 100 95 receiver_account
               scenario_ledger)) = Inr ()"
proof -
  have quoted: "unat ((\<lambda>_. 97 :: uint256) scenario_details) \<le> 500" by simp
  show ?thesis
    using exchange_three_calls
      [OF scenario_pull scenario_approve scenario_swap [OF quoted, unfolded scenario_details_def]]
    by simp
qed

text \<open>The scenario of spec 8: the router is called with these parameters and returns 97.\<close>

theorem exchange_router_parameters_witness:
  "\<exists>w1 w2 w3.
     transferFrom (reference_env (\<lambda>_. 97) pool_address) tokenA contract_address caller_account
       contract_address 100 scenario_ledger = Inr (True, w1) \<and>
     approve (reference_env (\<lambda>_. 97) pool_address) tokenA contract_address router_address 100 w1 =
       Inr (True, w2) \<and>
     swapExactInputSingle (reference_env (\<lambda>_. 97) pool_address) router_address contract_address
       \<lparr>tokenFrom = tokenA, tokenTo = tokenB, feeRate = 3000,
        recipient = receiver_account, deadline = 1700000000, inputAmount = 100,
        minOutputAmount = 95, priceLimit = 0\<rparr> w2 = Inr (97, w3)"
proof -
  from exchange_router_parameters [OF scenario_success]
  obtain w1 w2 out w3 where
    "transferFrom (reference_env (\<lambda>_. 97) pool_address) tokenA contract_address caller_account
       contract_address 100 scenario_ledger = Inr (True, w1)"
    "approve (reference_env (\<lambda>_. 97) pool_address) tokenA contract_address router_address 100 w1 =
       Inr (True, w2)"
    and swap: "swapExactInputSingle (reference_env (\<lambda>_. 97) pool_address) router_address
       contract_address
       \<lparr>tokenFrom = tokenA, tokenTo = tokenB, feeRate = 3000,
        recipient = receiver_account, deadline = 1700000000, inputAmount = 100,
        minOutputAmount = 95, priceLimit = 0\<rparr> w2 = Inr (out, w3)"
    by (auto simp: deployed_def constructor_def)
  moreover from swap have "out = 97"
    by (auto simp: reference_env_def mock_swapExactInputSingle_def
             split: sum.splits prod.splits bool.splits if_splits)
  ultimately show ?thesis
    by blast
qed

subsection \<open>The approval\<close>




section \<open>Properties of the script\<close>

subsection \<open>Traces of the script's parts\<close>

lemma fst_bindJ [simp]:
  "fst (bindJ m f) = fst m @ (case snd m of Inl err \<Rightarrow> [] | Inr a \<Rightarrow> fst (f a))"
  by (simp add: bindJ_def split: prod.splits sum.splits)

lemma snd_bindJ [simp]:
  "snd (bindJ m f) = (case snd m of Inl err \<Rightarrow> Inl err | Inr a \<Rightarrow> snd (f a))"
  by (simp add: bindJ_def split: prod.splits sum.splits)

lemma fst_try_catch [simp]:
  "fst (try_catch m h) = fst m @ (case snd m of Inl err \<Rightarrow> fst (h err) | Inr a \<Rightarrow> [])"
  by (simp add: try_catch_def split: prod.splits sum.splits)

lemma snd_try_catch [simp]:
  "snd (try_catch m h) = (case snd m of Inl err \<Rightarrow> snd (h err) | Inr a \<Rightarrow> Inr a)"
  by (simp add: try_catch_def split: prod.splits sum.splits)

lemma js_basics [simp]:
  "fst (await c r) = [c]" "snd (await c r) = r"
  "fst (console_log xs) = [ConsoleLog xs]" "snd (console_log xs) = Inr ()"
  "fst (console_error xs) = [ConsoleError xs]" "snd (console_error xs) = Inr ()"
  "fst (returnJ a) = []" "snd (returnJ a) = Inr a"
  "fst (throwJ err) = []" "snd (throwJ err :: 'b js) = Inl err"
  by (simp_all add: await_def console_log_def console_error_def returnJ_def throwJ_def)

lemma forEach_console_log:
  "forEach xs (\<lambda>x. console_log (g x)) = (map (\<lambda>x. ConsoleLog (g x)) xs, Inr ())"
proof (induction xs)
  case Nil
  show ?case by (simp add: returnJ_def)
next
  case (Cons x xs)
  then show ?case by (simp add: prod_eq_iff)
qed

lemma printLiquidityBreakdown_eq:
  "printLiquidityBreakdown W r =
     (ConsoleLog [Str (nat_toString (length (fills r)) @ '' Liquidity Sources:'')] #
      map (\<lambda>s. ConsoleLog [Str (source s @ '': '' @
              div100_toFixed2 (toFixed2_beyond W) (proportionBps s) @ ''%'')]) (fills r),
      Inr ())"
  by (simp add: printLiquidityBreakdown_def Let_def forEach_console_log prod_eq_iff)

lemma calls_map_ConsoleLog [simp]: "filter is_call (map (\<lambda>x. ConsoleLog (g x)) xs) = []"
  by (induction xs) (simp_all add: is_call_def)

lemma printLiquidityBreakdown_calls [simp]:
  "filter is_call (fst (printLiquidityBreakdown W r)) = []"
  "snd (printLiquidityBreakdown W r) = Inr ()"
  by (simp_all add: printLiquidityBreakdown_eq is_call_def)

lemma showTokenTaxInfo_calls [simp]:
  "filter is_call (fst (showTokenTaxInfo W m)) = []"
  "snd (showTokenTaxInfo W m) = Inr ()"
  by (simp_all add: showTokenTaxInfo_def Let_def is_call_def)

lemma printMetrics_calls [simp]:
  "filter is_call (fst (printMetrics W q)) = []"
  "snd (printMetrics W q) = Inr ()"
  by (simp_all add: printMetrics_def Let_def is_call_def split: option.splits)

lemma fetchLiquiditySources_calls [simp]:
  "filter is_call (fst (fetchLiquiditySources W key)) =
     [HttpGet sources_url [(''chainId'', nat_toString (scroll_id W))] (requestHeaders key)]"
  by (simp add: fetchLiquiditySources_def Let_def is_call_def split: sum.splits option.splits)

lemma fetchLiquiditySources_ok [simp]:
  "listing_ok W \<Longrightarrow> snd (fetchLiquiditySources W key) = Inr ()"
  by (auto simp: listing_ok_def fetchLiquiditySources_def Let_def split: sum.splits option.splits)

lemma fetchLiquiditySources_failed:
  "sources_response W = Inl err \<Longrightarrow>
   fetchLiquiditySources W key =
     ([HttpGet sources_url [(''chainId'', nat_toString (scroll_id W))] (requestHeaders key)],
      Inl err)"
  by (simp add: fetchLiquiditySources_def Let_def prod_eq_iff)

lemma fetchLiquiditySources_no_sources:
  "sources_response W = Inr sr \<Longrightarrow> sources sr = None \<Longrightarrow>
   fetchLiquiditySources W key =
     ([HttpGet sources_url [(''chainId'', nat_toString (scroll_id W))] (requestHeaders key)],
      Inl ''TypeError: Cannot convert undefined or null to object'')"
  by (simp add: fetchLiquiditySources_def Let_def prod_eq_iff)

lemma approvals_among_calls:
  "filter is_approval (filter is_call xs) = filter is_approval xs"
  by (induction xs) (auto simp: is_approval_def is_call_def split: event.splits)

text \<open>The calls of the approval block are those of the conditional grant.\<close>

lemma permit2Approval_calls:
  "filter is_call (fst (permit2Approval W pd)) = approval_calls W pd"
  by (simp add: permit2Approval_def approval_calls_def is_call_def
           split: sum.splits option.splits)

text \<open>
  The approval of a price response with an allowance issue: the simulation is asked
  for the issue's spender and \<open>maxUint256\<close>, the transaction is then written with the
  property \<open>args\<close> of what the simulation resolved to, and an error of either is
  logged and goes no further.
\<close>

lemma permit2Approval_attempt:
  assumes "issues pd = Some iss" "allowance iss = Some issue"
  shows "filter is_call (fst (permit2Approval W pd)) =
           SimulateApprove weth_address (spender issue, maxUint256) #
           (case simulate_response W of
              Inl err \<Rightarrow> []
            | Inr sim \<Rightarrow> [WriteApprove weth_address (args sim)])"
    and "snd (permit2Approval W pd) = Inr ()"
    and "approval_failure W = Some err \<Longrightarrow>
           ConsoleError [Str ''Permit2 approval error:'', ErrObj err]
             \<in> set (fst (permit2Approval W pd))"
  using assms
  by (auto simp: permit2Approval_def is_call_def approval_failure_def split: sum.splits)

lemma permit2Approval_ok:
  "issues pd \<noteq> None \<Longrightarrow> snd (permit2Approval W pd) = Inr ()"
  by (auto simp: permit2Approval_def split: option.splits sum.splits)

lemma permit2Approval_no_issues:
  "issues pd = None \<Longrightarrow>
   permit2Approval W pd = ([], Inl ''TypeError: Cannot read properties of undefined'')"
  by (simp add: permit2Approval_def throwJ_def)

text \<open>The loop that fills the quote's parameters copies the price's.\<close>

lemma copy_params: "foldl (\<lambda>q (k, v). q @ [(k, v)]) acc ps = acc @ ps"
  by (induction ps arbitrary: acc) auto

lemma calls_prefix:
  "prefix (filter is_call (fst (mainExecution W key taker))) (request_sequence W key taker)"
  by (simp add: mainExecution_def request_sequence_def Let_def copy_params is_call_def
        permit2Approval_calls split: sum.splits)

lemma calls_completed:
  assumes "snd (mainExecution W key taker) = Inr ()"
  shows "filter is_call (fst (mainExecution W key taker)) = request_sequence W key taker"
  using assms
  by (simp add: mainExecution_def request_sequence_def Let_def copy_params is_call_def
        permit2Approval_calls split: sum.splits)

lemma metrics_last:
  assumes "snd (mainExecution W key taker) = Inr ()"
  shows "\<exists>qd. quote_response W = Inr qd \<and>
           suffix (ConsoleLog [QuoteObj qd] # fst (printMetrics W qd))
                  (fst (mainExecution W key taker))"
  using assms
  by (auto simp: mainExecution_def Let_def suffix_def split: sum.splits)

subsection \<open>The run\<close>

lemma run_world_simps [simp]:
  "PRIVATE_KEY run_world =
     Some ''59c6995e998f97a5a0044966f0945389dc9e86dae88c7a8412f4603b6b78690d''"
  "ZERO_EX_API_KEY run_world = Some ''api-key''"
  "ALCHEMY_HTTP_TRANSPORT_URL run_world = Some ''https://scroll-mainnet.g.alchemy.com/v2/key''"
  "scroll_id run_world = 534352"
  "account_response run_world = Inr taker_address"
  "addresses_response run_world = Inr [taker_address]"
  "sources_response run_world = Inr \<lparr>sources = Some [''Ambient'', ''Nuri'']\<rparr>"
  "decimals_response run_world = Inr 18"
  "price_response run_world = Inr \<lparr>issues = Some \<lparr>allowance = Some \<lparr>spender = permit2\<rparr>\<rparr>\<rparr>"
  "simulate_response run_world = Inr \<lparr>args = None, request = Some (permit2, maxUint256)\<rparr>"
  "write_response run_world = Inl ''AbiEncodingLengthMismatchError''"
  "quote_response run_world = Inr run_quote"
  "parseFloat_positive run_world ''12''"
  by (simp_all add: run_world_def)

lemma approved_world_simps [simp]:
  "scroll_id approved_world = 534352"
  "sources_response approved_world = Inr \<lparr>sources = Some [''Ambient'', ''Nuri'']\<rparr>"
  "decimals_response approved_world = Inr 18"
  "price_response approved_world = Inr \<lparr>issues = Some \<lparr>allowance = None\<rparr>\<rparr>"
  "quote_response approved_world = Inr run_quote"
  by (simp_all add: approved_world_def run_world_def)

lemma run_listing_ok [simp]: "listing_ok run_world"
  by (simp add: listing_ok_def)

lemma run_approval_failure [simp]:
  "approval_failure run_world = Some ''AbiEncodingLengthMismatchError''"
  by (simp add: approval_failure_def)

lemmas nat_toString_numeral =
  nat_toString.simps [of 0] nat_toString.simps [of "Suc n"] nat_toString.simps [of "numeral k"]
  for n k

lemmas js_number_defs =
  parseInt_def white_space_def js_integer_def is_digit_in_def digit_value_def digits_value_def
  div100_toFixed2_def fixed2_def digit_char_def nat_toString_numeral is_positive_def

lemma sell_amount: "nat_toString (parseUnits_tenth 18) = ''100000000000000000''"
  by (simp add: parseUnits_tenth_def nat_toString_numeral digit_char_def)

lemma chain_id: "nat_toString 534352 = ''534352''"
  by (simp add: nat_toString_numeral digit_char_def)

lemma run_calls:
  "filter is_call (fst (mainExecution run_world ''api-key'' taker_address)) =
     [HttpGet sources_url [(''chainId'', ''534352'')] (requestHeaders ''api-key''),
      ReadDecimals weth_address,
      HttpGet price_url
        [(''chainId'', ''534352''), (''sellToken'', weth_address), (''buyToken'', wstEth_address),
         (''sellAmount'', ''100000000000000000''), (''taker'', taker_address),
         (''affiliateFee'', ''100''), (''surplusCollection'', ''true'')]
        (requestHeaders ''api-key''),
      SimulateApprove weth_address (permit2, maxUint256),
      WriteApprove weth_address None,
      HttpGet quote_url
        [(''chainId'', ''534352''), (''sellToken'', weth_address), (''buyToken'', wstEth_address),
         (''sellAmount'', ''100000000000000000''), (''taker'', taker_address),
         (''affiliateFee'', ''100''), (''surplusCollection'', ''true'')]
        (requestHeaders ''api-key'')]"
  by (simp add: mainExecution_def Let_def copy_params is_call_def permit2Approval_attempt
        priceQueryParams_def sell_amount chain_id)

lemma run_completed: "snd (mainExecution run_world ''api-key'' taker_address) = Inr ()"
  by (simp add: mainExecution_def Let_def permit2Approval_ok)

lemma run_metrics:
  "fst (printMetrics run_world run_quote) =
     [ConsoleLog [Str ''2 Liquidity Sources:''],
      ConsoleLog [Str ''Ambient: 60.00%''],
      ConsoleLog [Str ''Nuri: 40.00%''],
      ConsoleLog [Str ''Sell Token Buy Tax: 0.00%''],
      ConsoleLog [Str ''Sell Token Sell Tax: 1.50%''],
      ConsoleLog [Str ''Affiliate Fee: 1.00%''],
      ConsoleLog [Str ''Collected Trade Surplus: 12'']]"
  by (simp add: printMetrics_def printLiquidityBreakdown_eq showTokenTaxInfo_def truthy_def
        Let_def run_quote_def js_number_defs)

subsection \<open>The sequence of requests\<close>

lemma approved_listing_ok [simp]: "listing_ok approved_world"
  by (simp add: listing_ok_def)

lemma approved_completed:
  "snd (mainExecution approved_world ''api-key'' taker_address) = Inr ()"
  by (simp add: mainExecution_def Let_def permit2Approval_ok)

lemma approved_sequence:
  "request_sequence approved_world ''api-key'' taker_address =
     [HttpGet sources_url [(''chainId'', ''534352'')] (requestHeaders ''api-key''),
      ReadDecimals weth_address,
      HttpGet price_url
        [(''chainId'', ''534352''), (''sellToken'', weth_address), (''buyToken'', wstEth_address),
         (''sellAmount'', ''100000000000000000''), (''taker'', taker_address),
         (''affiliateFee'', ''100''), (''surplusCollection'', ''true'')]
        (requestHeaders ''api-key''),
      HttpGet quote_url
        [(''chainId'', ''534352''), (''sellToken'', weth_address), (''buyToken'', wstEth_address),
         (''sellAmount'', ''100000000000000000''), (''taker'', taker_address),
         (''affiliateFee'', ''100''), (''surplusCollection'', ''true'')]
        (requestHeaders ''api-key'')]"
  by (simp add: request_sequence_def approval_calls_def Let_def priceQueryParams_def
        sell_amount chain_id)

lemma filter_prefix: "prefix xs ys \<Longrightarrow> prefix (filter P xs) (filter P ys)"
  by (auto simp: prefix_def)

lemma no_approval_needed:
  assumes "listing_ok W" "decimals_response W = Inr d" "price_response W = Inr pd"
      and "issues pd = Some iss" "allowance iss = None"
  shows "filter is_approval (fst (mainExecution W key taker)) = []"
    and "ConsoleLog [Str ''No Permit2 approval required for WETH.'']
           \<in> set (fst (mainExecution W key taker))"
proof -
  have "filter is_approval (request_sequence W key taker) = []"
    using assms
    by (simp add: request_sequence_def approval_calls_def Let_def is_approval_def)
  with filter_prefix [OF calls_prefix, of is_approval W key taker]
  have "filter is_approval (filter is_call (fst (mainExecution W key taker))) = []"
    by simp
  then show "filter is_approval (fst (mainExecution W key taker)) = []"
    by (simp only: approvals_among_calls)
  have "fst (permit2Approval W pd) = [ConsoleLog [Str ''No Permit2 approval required for WETH.'']]"
    "snd (permit2Approval W pd) = Inr ()"
    using assms by (simp_all add: permit2Approval_def)
  with assms show "ConsoleLog [Str ''No Permit2 approval required for WETH.'']
           \<in> set (fst (mainExecution W key taker))"
    by (simp add: mainExecution_def Let_def)
qed

text \<open>
  Claim C6.  The calls a run of \<open>mainExecution\<close> makes to the outside are, in this
  order, the listing request, the decimals lookup, the price request with the
  affiliate fee and the surplus collection among its parameters, the calls of the
  conditional allowance grant, and the quote request with the query parameters of the
  price request: every run makes a prefix of this sequence, and a run that completes
  makes all of it and ends by printing the metrics derived from the quote.  The grant
  is conditional: when the price response asks for no allowance the run makes no call
  of the approval and says so on the console; when it names a spender the run makes
  the calls of \<open>approval_calls\<close>, the simulation and then the transaction.
\<close>

theorem mainExecution_sequence:
  "prefix (filter is_call (fst (mainExecution W key taker))) (request_sequence W key taker) \<and>
   (snd (mainExecution W key taker) = Inr () \<longrightarrow>
      filter is_call (fst (mainExecution W key taker)) = request_sequence W key taker \<and>
      (\<exists>qd. quote_response W = Inr qd \<and>
         suffix (ConsoleLog [QuoteObj qd] # fst (printMetrics W qd))
                (fst (mainExecution W key taker)))) \<and>
   (\<forall>d pd iss.
      listing_ok W \<and> decimals_response W = Inr d \<and> price_response W = Inr pd \<and>
      issues pd = Some iss \<and> allowance iss = None \<longrightarrow>
        filter is_approval (fst (mainExecution W key taker)) = [] \<and>
        ConsoleLog [Str ''No Permit2 approval required for WETH.'']
          \<in> set (fst (mainExecution W key taker))) \<and>
   (\<forall>chainId amountToSell.
      (''affiliateFee'', ''100'') \<in> set (priceQueryParams chainId taker amountToSell) \<and>
      (''surplusCollection'', ''true'') \<in> set (priceQueryParams chainId taker amountToSell))"
proof -
  have pre: "prefix (filter is_call (fst (mainExecution W key taker)))
               (request_sequence W key taker)"
    by (rule calls_prefix)
  have full: "snd (mainExecution W key taker) = Inr () \<longrightarrow>
      filter is_call (fst (mainExecution W key taker)) = request_sequence W key taker \<and>
      (\<exists>qd. quote_response W = Inr qd \<and>
         suffix (ConsoleLog [QuoteObj qd] # fst (printMetrics W qd))
                (fst (mainExecution W key taker)))"
    using calls_completed metrics_last by blast
  have none: "\<forall>d pd iss.
      listing_ok W \<and> decimals_response W = Inr d \<and> price_response W = Inr pd \<and>
      issues pd = Some iss \<and> allowance iss = None \<longrightarrow>
        filter is_approval (fst (mainExecution W key taker)) = [] \<and>
        ConsoleLog [Str ''No Permit2 approval required for WETH.'']
          \<in> set (fst (mainExecution W key taker))"
    using no_approval_needed by blast
  have params: "\<forall>chainId amountToSell.
      (''affiliateFee'', ''100'') \<in> set (priceQueryParams chainId taker amountToSell) \<and>
      (''surplusCollection'', ''true'') \<in> set (priceQueryParams chainId taker amountToSell)"
    by (simp add: priceQueryParams_def)
  from pre full none params show ?thesis
    by (intro conjI)
qed

text \<open>
  Two runs that complete: the run, whose price response names Permit2, with six calls
  and the metrics printed last, and the run of the world that asks for no allowance,
  with four calls and none of the approval.
\<close>

theorem mainExecution_sequence_witness:
  "filter is_call (fst (mainExecution run_world ''api-key'' taker_address)) =
     [HttpGet sources_url [(''chainId'', ''534352'')] (requestHeaders ''api-key''),
      ReadDecimals weth_address,
      HttpGet price_url
        [(''chainId'', ''534352''), (''sellToken'', weth_address), (''buyToken'', wstEth_address),
         (''sellAmount'', ''100000000000000000''), (''taker'', taker_address),
         (''affiliateFee'', ''100''), (''surplusCollection'', ''true'')]
        (requestHeaders ''api-key''),
      SimulateApprove weth_address (permit2, maxUint256),
      WriteApprove weth_address None,
      HttpGet quote_url
        [(''chainId'', ''534352''), (''sellToken'', weth_address), (''buyToken'', wstEth_address),
         (''sellAmount'', ''100000000000000000''), (''taker'', taker_address),
         (''affiliateFee'', ''100''), (''surplusCollection'', ''true'')]
        (requestHeaders ''api-key'')] \<and>
   request_sequence run_world ''api-key'' taker_address =
     filter is_call (fst (mainExecution run_world ''api-key'' taker_address)) \<and>
   suffix
     [ConsoleLog [Str ''2 Liquidity Sources:''],
      ConsoleLog [Str ''Ambient: 60.00%''],
      ConsoleLog [Str ''Nuri: 40.00%''],
      ConsoleLog [Str ''Sell Token Buy Tax: 0.00%''],
      ConsoleLog [Str ''Sell Token Sell Tax: 1.50%''],
      ConsoleLog [Str ''Affiliate Fee: 1.00%''],
      ConsoleLog [Str ''Collected Trade Surplus: 12'']]
     (fst (mainExecution run_world ''api-key'' taker_address)) \<and>
   request_sequence approved_world ''api-key'' taker_address =
     [HttpGet sources_url [(''chainId'', ''534352'')] (requestHeaders ''api-key''),
      ReadDecimals weth_address,
      HttpGet price_url
        [(''chainId'', ''534352''), (''sellToken'', weth_address), (''buyToken'', wstEth_address),
         (''sellAmount'', ''100000000000000000''), (''taker'', taker_address),
         (''affiliateFee'', ''100''), (''surplusCollection'', ''true'')]
        (requestHeaders ''api-key''),
      HttpGet quote_url
        [(''chainId'', ''534352''), (''sellToken'', weth_address), (''buyToken'', wstEth_address),
         (''sellAmount'', ''100000000000000000''), (''taker'', taker_address),
         (''affiliateFee'', ''100''), (''surplusCollection'', ''true'')]
        (requestHeaders ''api-key'')] \<and>
   filter is_approval (fst (mainExecution approved_world ''api-key'' taker_address)) = []"
proof -
  note run = mainExecution_sequence [of run_world "''api-key''" taker_address]
  note approved = mainExecution_sequence [of approved_world "''api-key''" taker_address]
  from run run_completed
  have run_all: "filter is_call (fst (mainExecution run_world ''api-key'' taker_address)) =
                   request_sequence run_world ''api-key'' taker_address"
    by blast
  from run run_completed
  obtain qd where "quote_response run_world = Inr qd"
    and "suffix (ConsoleLog [QuoteObj qd] # fst (printMetrics run_world qd))
           (fst (mainExecution run_world ''api-key'' taker_address))"
    by blast
  then have metrics: "suffix (fst (printMetrics run_world run_quote))
           (fst (mainExecution run_world ''api-key'' taker_address))"
    by (auto dest: suffix_ConsD)
  from approved approved_completed
  have approved_all:
    "filter is_call (fst (mainExecution approved_world ''api-key'' taker_address)) =
       request_sequence approved_world ''api-key'' taker_address"
    by blast
  have "listing_ok approved_world"
    by (simp add: listing_ok_def)
  with approved
  have none: "filter is_approval (fst (mainExecution approved_world ''api-key'' taker_address)) = []"
    by simp
  from run_all metrics approved_all none show ?thesis
    by (simp only: run_calls run_metrics approved_sequence simp_thms)
qed

subsection \<open>The approval and the failures\<close>

text \<open>
  Claim C7.  In a run that reaches a price response with an allowance issue, the
  approval is attempted before the quote request: its simulation is asked for, the
  transaction is written when the simulation resolves, and the quote request follows
  in either case.  When the simulation or the transaction throws, the error is logged
  with \<open>console.error\<close> and the quote request is still made.  A failure of any
  other step ends the run with that error, and the failed step is the last thing the
  run did: the listing request, the missing \<open>sources\<close> of its answer, the decimals
  lookup, the price request, the missing \<open>issues\<close> of its answer, or the quote
  request.
\<close>

theorem approval_precedes_quote:
  "(\<forall>d pd iss issue.
      listing_ok W \<and> decimals_response W = Inr d \<and> price_response W = Inr pd \<and>
      issues pd = Some iss \<and> allowance iss = Some issue \<longrightarrow>
        filter is_call (fst (mainExecution W key taker)) =
          [HttpGet sources_url [(''chainId'', nat_toString (scroll_id W))] (requestHeaders key),
           ReadDecimals weth_address,
           HttpGet price_url
             (priceQueryParams (scroll_id W) taker (parseUnits_tenth d)) (requestHeaders key),
           SimulateApprove weth_address (spender issue, maxUint256)] @
          (case simulate_response W of
             Inl err \<Rightarrow> []
           | Inr sim \<Rightarrow> [WriteApprove weth_address (args sim)]) @
          [HttpGet quote_url
             (priceQueryParams (scroll_id W) taker (parseUnits_tenth d)) (requestHeaders key)] \<and>
        (\<forall>err. approval_failure W = Some err \<longrightarrow>
           ConsoleError [Str ''Permit2 approval error:'', ErrObj err]
             \<in> set (fst (mainExecution W key taker)))) \<and>
   (\<forall>err. sources_response W = Inl err \<longrightarrow>
      mainExecution W key taker =
        ([HttpGet sources_url [(''chainId'', nat_toString (scroll_id W))] (requestHeaders key)],
         Inl err)) \<and>
   (\<forall>sr. sources_response W = Inr sr \<and> sources sr = None \<longrightarrow>
      mainExecution W key taker =
        ([HttpGet sources_url [(''chainId'', nat_toString (scroll_id W))] (requestHeaders key)],
         Inl ''TypeError: Cannot convert undefined or null to object'')) \<and>
   (\<forall>err. listing_ok W \<and> decimals_response W = Inl err \<longrightarrow>
      snd (mainExecution W key taker) = Inl err \<and>
      last (fst (mainExecution W key taker)) = ReadDecimals weth_address) \<and>
   (\<forall>err d. listing_ok W \<and> decimals_response W = Inr d \<and> price_response W = Inl err \<longrightarrow>
      snd (mainExecution W key taker) = Inl err \<and>
      last (fst (mainExecution W key taker)) =
        HttpGet price_url
          (priceQueryParams (scroll_id W) taker (parseUnits_tenth d)) (requestHeaders key)) \<and>
   (\<forall>d pd. listing_ok W \<and> decimals_response W = Inr d \<and> price_response W = Inr pd \<and>
        issues pd = None \<longrightarrow>
      snd (mainExecution W key taker) = Inl ''TypeError: Cannot read properties of undefined'' \<and>
      last (fst (mainExecution W key taker)) = ConsoleLog [PriceObj pd]) \<and>
   (\<forall>err d pd. listing_ok W \<and> decimals_response W = Inr d \<and> price_response W = Inr pd \<and>
        issues pd \<noteq> None \<and> quote_response W = Inl err \<longrightarrow>
      snd (mainExecution W key taker) = Inl err \<and>
      last (fst (mainExecution W key taker)) =
        HttpGet quote_url
          (priceQueryParams (scroll_id W) taker (parseUnits_tenth d)) (requestHeaders key))"
proof (intro conjI allI impI)
  fix d pd iss issue
  assume h: "listing_ok W \<and> decimals_response W = Inr d \<and> price_response W = Inr pd \<and>
      issues pd = Some iss \<and> allowance iss = Some issue"
  then show "filter is_call (fst (mainExecution W key taker)) =
          [HttpGet sources_url [(''chainId'', nat_toString (scroll_id W))] (requestHeaders key),
           ReadDecimals weth_address,
           HttpGet price_url
             (priceQueryParams (scroll_id W) taker (parseUnits_tenth d)) (requestHeaders key),
           SimulateApprove weth_address (spender issue, maxUint256)] @
          (case simulate_response W of
             Inl err \<Rightarrow> []
           | Inr sim \<Rightarrow> [WriteApprove weth_address (args sim)]) @
          [HttpGet quote_url
             (priceQueryParams (scroll_id W) taker (parseUnits_tenth d)) (requestHeaders key)]"
    by (simp add: mainExecution_def Let_def copy_params is_call_def permit2Approval_attempt
             split: sum.splits)
  fix err
  assume "approval_failure W = Some err"
  with h have "ConsoleError [Str ''Permit2 approval error:'', ErrObj err]
                 \<in> set (fst (permit2Approval W pd))"
    by (auto intro: permit2Approval_attempt(3))
  with h show "ConsoleError [Str ''Permit2 approval error:'', ErrObj err]
             \<in> set (fst (mainExecution W key taker))"
    by (simp add: mainExecution_def Let_def)
next
  fix err assume "sources_response W = Inl err"
  then show "mainExecution W key taker =
        ([HttpGet sources_url [(''chainId'', nat_toString (scroll_id W))] (requestHeaders key)],
         Inl err)"
    by (simp add: mainExecution_def fetchLiquiditySources_failed prod_eq_iff)
next
  fix sr assume "sources_response W = Inr sr \<and> sources sr = None"
  then show "mainExecution W key taker =
        ([HttpGet sources_url [(''chainId'', nat_toString (scroll_id W))] (requestHeaders key)],
         Inl ''TypeError: Cannot convert undefined or null to object'')"
    by (simp add: mainExecution_def fetchLiquiditySources_no_sources prod_eq_iff)
next
  fix err assume h: "listing_ok W \<and> decimals_response W = Inl err"
  then show "snd (mainExecution W key taker) = Inl err"
    by (simp add: mainExecution_def)
  from h show "last (fst (mainExecution W key taker)) = ReadDecimals weth_address"
    by (simp add: mainExecution_def)
next
  fix err d
  assume h: "listing_ok W \<and> decimals_response W = Inr d \<and> price_response W = Inl err"
  then show "snd (mainExecution W key taker) = Inl err"
    by (simp add: mainExecution_def Let_def)
  from h show "last (fst (mainExecution W key taker)) =
        HttpGet price_url
          (priceQueryParams (scroll_id W) taker (parseUnits_tenth d)) (requestHeaders key)"
    by (simp add: mainExecution_def Let_def)
next
  fix d pd
  assume h: "listing_ok W \<and> decimals_response W = Inr d \<and> price_response W = Inr pd \<and>
        issues pd = None"
  then show "snd (mainExecution W key taker) =
               Inl ''TypeError: Cannot read properties of undefined''"
    by (simp add: mainExecution_def Let_def permit2Approval_no_issues)
  from h show "last (fst (mainExecution W key taker)) = ConsoleLog [PriceObj pd]"
    by (simp add: mainExecution_def Let_def permit2Approval_no_issues)
next
  fix err d pd
  assume h: "listing_ok W \<and> decimals_response W = Inr d \<and> price_response W = Inr pd \<and>
        issues pd \<noteq> None \<and> quote_response W = Inl err"
  then show "snd (mainExecution W key taker) = Inl err"
    by (simp add: mainExecution_def Let_def permit2Approval_ok)
  from h show "last (fst (mainExecution W key taker)) =
        HttpGet quote_url
          (priceQueryParams (scroll_id W) taker (parseUnits_tenth d)) (requestHeaders key)"
    by (simp add: mainExecution_def Let_def permit2Approval_ok copy_params)
qed

text \<open>
  The run, whose approval fails and is logged before the quote request, and the same
  world with a listing request that throws.
\<close>

theorem approval_precedes_quote_witness:
  "filter is_call (fst (mainExecution run_world ''api-key'' taker_address)) =
     [HttpGet sources_url [(''chainId'', ''534352'')] (requestHeaders ''api-key''),
      ReadDecimals weth_address,
      HttpGet price_url
        [(''chainId'', ''534352''), (''sellToken'', weth_address), (''buyToken'', wstEth_address),
         (''sellAmount'', ''100000000000000000''), (''taker'', taker_address),
         (''affiliateFee'', ''100''), (''surplusCollection'', ''true'')]
        (requestHeaders ''api-key''),
      SimulateApprove weth_address (permit2, maxUint256),
      WriteApprove weth_address None,
      HttpGet quote_url
        [(''chainId'', ''534352''), (''sellToken'', weth_address), (''buyToken'', wstEth_address),
         (''sellAmount'', ''100000000000000000''), (''taker'', taker_address),
         (''affiliateFee'', ''100''), (''surplusCollection'', ''true'')]
        (requestHeaders ''api-key'')] \<and>
   ConsoleError [Str ''Permit2 approval error:'', ErrObj ''AbiEncodingLengthMismatchError'']
     \<in> set (fst (mainExecution run_world ''api-key'' taker_address)) \<and>
   mainExecution (run_world\<lparr>sources_response := Inl ''fetch failed''\<rparr>) ''api-key'' taker_address =
     ([HttpGet sources_url [(''chainId'', ''534352'')] (requestHeaders ''api-key'')],
      Inl ''fetch failed'')"
  using approval_precedes_quote [of run_world "''api-key''" taker_address]
        approval_precedes_quote [of "run_world\<lparr>sources_response := Inl ''fetch failed''\<rparr>"
                                    "''api-key''" taker_address]
  by (simp add: priceQueryParams_def sell_amount chain_id)

subsection \<open>Configuration\<close>

text \<open>
  Claim C8.  When the private key, the API key or the RPC endpoint URL is absent from
  the process environment, the script throws an error that names the first missing
  value, before it has made any wallet operation, request or output.
\<close>

theorem script_requires_configuration:
  assumes "PRIVATE_KEY W = None \<or> ZERO_EX_API_KEY W = None \<or>
           ALCHEMY_HTTP_TRANSPORT_URL W = None"
  shows "\<exists>name \<in> set [''PRIVATE_KEY'', ''ZERO_EX_API_KEY'', ''ALCHEMY_HTTP_TRANSPORT_URL''].
           script W = ([], Inl (''Error: '' @ name @ '' is not defined.''))"
  using assms by (auto simp: script_def truthy_def throwJ_def)

text \<open>The run's world without its RPC endpoint URL.\<close>

theorem script_requires_configuration_witness:
  "script (run_world\<lparr>ALCHEMY_HTTP_TRANSPORT_URL := None\<rparr>) =
     ([], Inl ''Error: ALCHEMY_HTTP_TRANSPORT_URL is not defined.'')"
  using script_requires_configuration [of "run_world\<lparr>ALCHEMY_HTTP_TRANSPORT_URL := None\<rparr>"]
  by (simp add: script_def truthy_def throwJ_def)

subsection \<open>The arguments of the approval\<close>

text \<open>
  Claim C9.  The script asks the simulation for an approval of the spender named in
  the price response and of \<open>maxUint256\<close>, and then writes the transaction with the
  property \<open>args\<close> of what the simulation resolved to.  In the run, where that object
  is the \<open>{result, request}\<close> the wallet library documents, the property is
  undefined: the transaction is written without arguments, the write throws, the
  error is logged, and no approval of \<open>maxUint256\<close> is submitted.
\<close>

theorem approval_written_without_arguments:
  "filter is_approval (fst (script run_world)) =
     [SimulateApprove weth_address (permit2, maxUint256), WriteApprove weth_address None] \<and>
   ConsoleError [Str ''Permit2 approval error:'', ErrObj ''AbiEncodingLengthMismatchError'']
     \<in> set (fst (script run_world))"
proof -
  have run: "fst (script run_world) =
      [PrivateKeyToAccount
         ''0x59c6995e998f97a5a0044966f0945389dc9e86dae88c7a8412f4603b6b78690d'', GetAddresses] @
      fst (mainExecution run_world ''api-key'' taker_address)"
    by (simp add: script_def truthy_def)
  have calls: "filter is_approval (fst (mainExecution run_world ''api-key'' taker_address)) =
      filter is_approval (filter is_call (fst (mainExecution run_world ''api-key'' taker_address)))"
    by (rule approvals_among_calls [symmetric])
  have logged: "ConsoleError [Str ''Permit2 approval error:'', ErrObj ''AbiEncodingLengthMismatchError'']
      \<in> set (fst (permit2Approval run_world
                      \<lparr>issues = Some \<lparr>allowance = Some \<lparr>spender = permit2\<rparr>\<rparr>\<rparr>))"
    by (rule permit2Approval_attempt(3)
          [where iss = "\<lparr>allowance = Some \<lparr>spender = permit2\<rparr>\<rparr>"
             and issue = "\<lparr>spender = permit2\<rparr>"])
       simp_all
  show ?thesis
    unfolding run
    by (simp add: calls run_calls is_approval_def)
       (simp add: mainExecution_def Let_def logged)
qed

subsection \<open>The percentages of the liquidity sources\<close>

text \<open>Printing hundredths with two decimals and reading them back gives the same number.\<close>

lemma digit_cases: "d < 10 \<Longrightarrow> d \<in> {0, 1, 2, 3, 4, 5, 6, 7, 8, 9::nat}"
  by auto

lemma digit_char_value: "d < 10 \<Longrightarrow> digit_value (digit_char d) = Some d"
  by (drule digit_cases) (auto simp: digit_char_def digit_value_def)

lemma digit_char_is_digit: "d < 10 \<Longrightarrow> is_digit_in 10 (digit_char d)"
  by (simp add: is_digit_in_def digit_char_value)

lemma digit_char_not_point: "d < 10 \<Longrightarrow> digit_char d \<noteq> CHR ''.''"
  by (drule digit_cases) (auto simp: digit_char_def)

lemma digit_char_not_minus: "d < 10 \<Longrightarrow> digit_char d \<noteq> CHR ''-''"
  by (drule digit_cases) (auto simp: digit_char_def)

lemma nat_toString_nonempty: "nat_toString n \<noteq> []"
  by (subst nat_toString.simps) simp

lemma nat_toString_digits: "list_all (is_digit_in 10) (nat_toString n)"
proof (induction n rule: nat_toString.induct)
  case (1 n)
  show ?case
    by (subst nat_toString.simps) (use 1 in \<open>simp add: digit_char_is_digit\<close>)
qed

lemma nat_toString_no_point: "CHR ''.'' \<notin> set (nat_toString n)"
proof (induction n rule: nat_toString.induct)
  case (1 n)
  show ?case
  proof (cases "n < 10")
    case True
    then show ?thesis
      by (subst nat_toString.simps) (simp add: digit_char_not_point [symmetric])
  next
    case False
    with 1 show ?thesis
      by (subst nat_toString.simps) (simp add: digit_char_not_point [symmetric])
  qed
qed

lemma hd_nat_toString: "hd (nat_toString n) \<noteq> CHR ''-''"
proof (induction n rule: nat_toString.induct)
  case (1 n)
  show ?case
  proof (cases "n < 10")
    case True
    then show ?thesis
      by (subst nat_toString.simps) (simp add: digit_char_not_minus)
  next
    case False
    with 1 show ?thesis
      by (subst nat_toString.simps) (simp add: hd_append nat_toString_nonempty)
  qed
qed

lemma digits_value_snoc:
  "digits_value r (ds @ [ch]) = r * digits_value r ds + the (digit_value ch)"
  by (simp add: digits_value_def)

lemma digits_value_nat_toString: "digits_value 10 (nat_toString n) = n"
proof (induction n rule: nat_toString.induct)
  case (1 n)
  show ?case
  proof (cases "n < 10")
    case True
    then show ?thesis
      by (subst nat_toString.simps) (simp add: digits_value_def digit_char_value)
  next
    case False
    with 1 show ?thesis
      by (subst nat_toString.simps) (simp add: digits_value_snoc digit_char_value)
  qed
qed

lemma takeWhile_until:
  "c \<notin> set w \<Longrightarrow> takeWhile (\<lambda>ch. ch \<noteq> c) (w @ c # f) = w"
  by (induction w) auto

lemma dropWhile_until:
  "c \<notin> set w \<Longrightarrow> dropWhile (\<lambda>ch. ch \<noteq> c) (w @ c # f) = c # f"
  by (induction w) auto

lemma read_fixed2_plain:
  assumes "w \<noteq> []" "list_all (is_digit_in 10) w" "CHR ''.'' \<notin> set w" "hd w \<noteq> CHR ''-''"
      and "length f = 2" "list_all (is_digit_in 10) f"
  shows "read_fixed2 (w @ CHR ''.'' # f) =
           Some (int (100 * digits_value 10 w + digits_value 10 f))"
proof -
  have h: "hd (w @ CHR ''.'' # f) = hd w"
    using assms(1) by simp
  have tw: "takeWhile (\<lambda>ch. ch \<noteq> CHR ''.'') (w @ CHR ''.'' # f) = w"
    using assms(3) by (rule takeWhile_until)
  have dw: "dropWhile (\<lambda>ch. ch \<noteq> CHR ''.'') (w @ CHR ''.'' # f) = CHR ''.'' # f"
    using assms(3) by (rule dropWhile_until)
  show ?thesis
    using assms(1,2,4,5,6) by (simp add: read_fixed2_def Let_def h tw dw)
qed

lemma read_fixed2_minus:
  assumes "w \<noteq> []" "list_all (is_digit_in 10) w" "CHR ''.'' \<notin> set w"
      and "length f = 2" "list_all (is_digit_in 10) f"
  shows "read_fixed2 (CHR ''-'' # w @ CHR ''.'' # f) =
           Some (- int (100 * digits_value 10 w + digits_value 10 f))"
proof -
  have tw: "takeWhile (\<lambda>ch. ch \<noteq> CHR ''.'') (w @ CHR ''.'' # f) = w"
    using assms(3) by (rule takeWhile_until)
  have dw: "dropWhile (\<lambda>ch. ch \<noteq> CHR ''.'') (w @ CHR ''.'' # f) = CHR ''.'' # f"
    using assms(3) by (rule dropWhile_until)
  have "read_fixed2 (CHR ''-'' # w @ CHR ''.'' # f) =
          (let t = w @ CHR ''.'' # f;
               whole = takeWhile (\<lambda>ch. ch \<noteq> CHR ''.'') t;
               frac = drop 1 (dropWhile (\<lambda>ch. ch \<noteq> CHR ''.'') t)
           in if whole \<noteq> [] \<and> list_all (is_digit_in 10) whole \<and>
                 length frac = 2 \<and> list_all (is_digit_in 10) frac
              then Some (- int (100 * digits_value 10 whole + digits_value 10 frac))
              else None)"
    by (simp add: read_fixed2_def Let_def del: takeWhile_append2 dropWhile_append2)
  then show ?thesis
    unfolding Let_def tw dw using assms(1,2,4,5) by simp
qed

lemma two_digits:
  fixes m :: nat
  shows "length [digit_char (m mod 100 div 10), digit_char (m mod 10)] = 2"
    and "list_all (is_digit_in 10) [digit_char (m mod 100 div 10), digit_char (m mod 10)]"
    and "digits_value 10 [digit_char (m mod 100 div 10), digit_char (m mod 10)] = m mod 100"
proof -
  have a: "m mod 100 div 10 < 10" by simp
  have b: "m mod 10 < 10" by simp
  show "length [digit_char (m mod 100 div 10), digit_char (m mod 10)] = 2" by simp
  show "list_all (is_digit_in 10) [digit_char (m mod 100 div 10), digit_char (m mod 10)]"
    using a b by (simp add: digit_char_is_digit)
  have "m mod 100 mod 10 = m mod 10"
    by (simp add: mod_mod_cancel)
  then have "10 * (m mod 100 div 10) + m mod 10 = m mod 100"
    using mult_div_mod_eq [of 10 "m mod 100"] by simp
  then show "digits_value 10 [digit_char (m mod 100 div 10), digit_char (m mod 10)] = m mod 100"
    using a b by (simp add: digits_value_def digit_char_value)
qed

lemma read_fixed2_fixed2: "read_fixed2 (fixed2 n) = Some n"
proof -
  define m where "m = nat \<bar>n\<bar>"
  have whole: "100 * digits_value 10 (nat_toString (m div 100)) + m mod 100 = m"
    by (simp add: digits_value_nat_toString)
  show ?thesis
  proof (cases "n < 0")
    case True
    have "read_fixed2 (CHR ''-'' # nat_toString (m div 100) @ CHR ''.'' #
            [digit_char (m mod 100 div 10), digit_char (m mod 10)]) = Some (- int m)"
      by (subst read_fixed2_minus)
         (simp_all add: nat_toString_nonempty nat_toString_digits nat_toString_no_point
            two_digits(3) digit_char_is_digit whole)
    with True show ?thesis
      by (simp add: fixed2_def m_def)
  next
    case False
    have "read_fixed2 (nat_toString (m div 100) @ CHR ''.'' #
            [digit_char (m mod 100 div 10), digit_char (m mod 10)]) = Some (int m)"
      by (subst read_fixed2_plain)
         (simp_all add: nat_toString_nonempty nat_toString_digits nat_toString_no_point
            hd_nat_toString two_digits(3) digit_char_is_digit whole)
    with False show ?thesis
      by (simp add: fixed2_def m_def)
  qed
qed

lemma div100_toFixed2_exact:
  "parseInt x = Integer n \<Longrightarrow> \<bar>n\<bar> < 10 ^ 15 \<Longrightarrow> div100_toFixed2 beyond x = fixed2 n"
  by (simp add: div100_toFixed2_def)

lemma percentage_value_toFixed2:
  "parseInt x = Integer n \<Longrightarrow> \<bar>n\<bar> < 10 ^ 15 \<Longrightarrow>
     percentage_value (div100_toFixed2 beyond x) = Some (of_int n / 100)"
  by (simp add: percentage_value_def div100_toFixed2_exact read_fixed2_fixed2)

lemma sum_percentages:
  "(\<Sum>s\<leftarrow>xs. (of_int (f s) / 100 :: rat)) = of_int (\<Sum>s\<leftarrow>xs. f s) / 100"
  by (induction xs) (simp_all add: add_divide_distrib)

text \<open>
  Claim C10.  \<open>printLiquidityBreakdown\<close> prints the number of sources and then, for
  each source, its name and \<open>(parseInt(proportionBps) / 100).toFixed(2)\<close> of its own
  basis points; the total it computes appears nowhere in the output.  Where every
  source's basis points parse to an integer below \<open>10 ^ 15\<close> in absolute value, the
  range in which the printed digits are those of the quotient, the number each printed
  percentage stands for is the source's basis points over 100, and the printed
  percentages add up to 100 exactly when the basis points add up to 10000.
\<close>

theorem printLiquidityBreakdown_percentages:
  "printLiquidityBreakdown W r =
     (ConsoleLog [Str (nat_toString (length (fills r)) @ '' Liquidity Sources:'')] #
      map (\<lambda>s. ConsoleLog [Str (source s @ '': '' @
              div100_toFixed2 (toFixed2_beyond W) (proportionBps s) @ ''%'')]) (fills r),
      Inr ()) \<and>
   ((\<forall>s \<in> set (fills r). \<exists>n. parseInt (proportionBps s) = Integer n \<and> \<bar>n\<bar> < 10 ^ 15) \<longrightarrow>
      (\<forall>s \<in> set (fills r).
         div100_toFixed2 (toFixed2_beyond W) (proportionBps s) =
           fixed2 (integer_of (parseInt (proportionBps s))) \<and>
         percentage_value (div100_toFixed2 (toFixed2_beyond W) (proportionBps s)) =
           Some (of_int (integer_of (parseInt (proportionBps s))) / 100)) \<and>
      ((\<Sum>s\<leftarrow>fills r.
           the (percentage_value (div100_toFixed2 (toFixed2_beyond W) (proportionBps s))))
          = 100 \<longleftrightarrow>
       (\<Sum>s\<leftarrow>fills r. integer_of (parseInt (proportionBps s))) = 10000))"
proof (intro conjI impI)
  show "printLiquidityBreakdown W r =
     (ConsoleLog [Str (nat_toString (length (fills r)) @ '' Liquidity Sources:'')] #
      map (\<lambda>s. ConsoleLog [Str (source s @ '': '' @
              div100_toFixed2 (toFixed2_beyond W) (proportionBps s) @ ''%'')]) (fills r),
      Inr ())"
    by (rule printLiquidityBreakdown_eq)
next
  assume parsed: "\<forall>s \<in> set (fills r). \<exists>n. parseInt (proportionBps s) = Integer n \<and> \<bar>n\<bar> < 10 ^ 15"
  have printed: "div100_toFixed2 (toFixed2_beyond W) (proportionBps s) =
           fixed2 (integer_of (parseInt (proportionBps s)))" if "s \<in> set (fills r)" for s
  proof -
    from parsed that obtain n where "parseInt (proportionBps s) = Integer n" "\<bar>n\<bar> < 10 ^ 15"
      by blast
    then show ?thesis
      by (simp add: div100_toFixed2_exact integer_of_def)
  qed
  have each: "percentage_value (div100_toFixed2 (toFixed2_beyond W) (proportionBps s)) =
           Some (of_int (integer_of (parseInt (proportionBps s))) / 100)"
    if "s \<in> set (fills r)" for s
  proof -
    from parsed that obtain n where "parseInt (proportionBps s) = Integer n" "\<bar>n\<bar> < 10 ^ 15"
      by blast
    then show ?thesis
      by (simp add: percentage_value_toFixed2 integer_of_def)
  qed
  from printed each show "\<forall>s \<in> set (fills r).
         div100_toFixed2 (toFixed2_beyond W) (proportionBps s) =
           fixed2 (integer_of (parseInt (proportionBps s))) \<and>
         percentage_value (div100_toFixed2 (toFixed2_beyond W) (proportionBps s)) =
           Some (of_int (integer_of (parseInt (proportionBps s))) / 100)"
    by blast
  have "(\<Sum>s\<leftarrow>fills r.
           the (percentage_value (div100_toFixed2 (toFixed2_beyond W) (proportionBps s)))) =
        (\<Sum>s\<leftarrow>fills r. (of_int (integer_of (parseInt (proportionBps s))) / 100 :: rat))"
    by (rule arg_cong [where f = sum_list], rule map_cong) (simp_all add: each)
  also have "\<dots> = of_int (\<Sum>s\<leftarrow>fills r. integer_of (parseInt (proportionBps s))) / 100"
    by (rule sum_percentages)
  finally have total:
    "(\<Sum>s\<leftarrow>fills r.
        the (percentage_value (div100_toFixed2 (toFixed2_beyond W) (proportionBps s)))) =
       of_int (\<Sum>s\<leftarrow>fills r. integer_of (parseInt (proportionBps s))) / 100" .
  have "(of_int k / 100 :: rat) = 100 \<longleftrightarrow> k = 10000" for k :: int
  proof -
    have "(of_int k / 100 :: rat) = 100 \<longleftrightarrow> (of_int k :: rat) = of_int 10000"
      by (simp add: divide_eq_eq)
    also have "\<dots> \<longleftrightarrow> k = 10000"
      by (rule of_int_eq_iff)
    finally show ?thesis .
  qed
  then show "(\<Sum>s\<leftarrow>fills r.
           the (percentage_value (div100_toFixed2 (toFixed2_beyond W) (proportionBps s))))
          = 100 \<longleftrightarrow>
       (\<Sum>s\<leftarrow>fills r. integer_of (parseInt (proportionBps s))) = 10000"
    unfolding total .
qed

text \<open>
  A route of 6000 and 3333 basis points, the second written after a byte order mark
  (U+FEFF), which \<open>parseInt\<close> skips: the percentages printed do not add up to 100.
\<close>

lemma short_route_parsed:
  "parseInt ''6000'' = Integer 6000"
  "parseInt (CHR 0xEF # CHR 0xBB # CHR 0xBF # ''3333'') = Integer 3333"
  by (simp_all add: parseInt_def white_space_def js_integer_def is_digit_in_def
        digit_value_def digits_value_def)

lemma short_route_printed:
  "fixed2 6000 = ''60.00''" "fixed2 3333 = ''33.33''" "nat_toString 2 = ''2''"
  by (simp_all add: fixed2_def nat_toString_numeral digit_char_def)

theorem printLiquidityBreakdown_percentages_witness:
  "fst (printLiquidityBreakdown run_world short_route) =
     [ConsoleLog [Str ''2 Liquidity Sources:''],
      ConsoleLog [Str ''Ambient: 60.00%''],
      ConsoleLog [Str ''Nuri: 33.33%'']] \<and>
   (\<Sum>s\<leftarrow>fills short_route.
      the (percentage_value
             (div100_toFixed2 (toFixed2_beyond run_world) (proportionBps s)))) \<noteq> 100"
proof -
  have parsed: "\<forall>s \<in> set (fills short_route).
                  \<exists>n. parseInt (proportionBps s) = Integer n \<and> \<bar>n\<bar> < 10 ^ 15"
    by (simp add: short_route_def short_route_parsed)
  have bps: "(\<Sum>s\<leftarrow>fills short_route. integer_of (parseInt (proportionBps s))) \<noteq> 10000"
    by (simp add: short_route_def short_route_parsed integer_of_def)
  from printLiquidityBreakdown_percentages [of run_world short_route] parsed
  have lines: "printLiquidityBreakdown run_world short_route =
     (ConsoleLog [Str (nat_toString (length (fills short_route)) @ '' Liquidity Sources:'')] #
      map (\<lambda>s. ConsoleLog [Str (source s @ '': '' @
              div100_toFixed2 (toFixed2_beyond run_world) (proportionBps s) @ ''%'')])
        (fills short_route),
      Inr ())"
    and printed: "\<forall>s \<in> set (fills short_route).
         div100_toFixed2 (toFixed2_beyond run_world) (proportionBps s) =
           fixed2 (integer_of (parseInt (proportionBps s)))"
    and total: "(\<Sum>s\<leftarrow>fills short_route.
                   the (percentage_value
                          (div100_toFixed2 (toFixed2_beyond run_world) (proportionBps s)))) = 100
                \<longleftrightarrow> (\<Sum>s\<leftarrow>fills short_route. integer_of (parseInt (proportionBps s))) = 10000"
    by blast+
  from printed
  have "div100_toFixed2 (toFixed2_beyond run_world) ''6000'' = ''60.00''"
    "div100_toFixed2 (toFixed2_beyond run_world) (CHR 0xEF # CHR 0xBB # CHR 0xBF # ''3333'') =
       ''33.33''"
    by (simp_all add: short_route_def short_route_parsed short_route_printed integer_of_def)
  then have "fst (printLiquidityBreakdown run_world short_route) =
     [ConsoleLog [Str ''2 Liquidity Sources:''],
      ConsoleLog [Str ''Ambient: 60.00%''],
      ConsoleLog [Str ''Nuri: 33.33%'']]"
    unfolding lines
    by (simp add: short_route_def nat_toString_numeral digit_char_def)
  with total bps show ?thesis
    by blast
qed

end
